theory Spec2Isabelle
  imports Main "HOL-Library.AList" "HOL-Library.Sublist" "HOL-Library.Log_Nat"
begin

section \<open>Values of the program\<close>

text \<open>
  The weather agent of \<^verbatim>\<open>src/agent/data_collection_agent.py\<close> handles decoded JSON:
  what \<^verbatim>\<open>response.json()\<close> returns. \<open>JNull\<close> is Python's \<^verbatim>\<open>None\<close>, \<open>JObj\<close> is a
  \<^verbatim>\<open>dict\<close> with string keys, kept as the list of its items in insertion order.
  A \<open>JFloat\<close> carries the exact rational value of a finite binary64 number.
\<close>

datatype json =
    JNull
  | JBool bool
  | JInt int
  | JFloat rat
  | JStr string
  | JArr "json list"
  | JObj "(string \<times> json) list"

text \<open>The exceptions the modelled code can raise.\<close>

datatype error =
    KeyError | TypeError | AttributeError | IndexError
  | ValueError | OverflowError | ZeroDivisionError

definition bind :: "error + 'a \<Rightarrow> ('a \<Rightarrow> error + 'b) \<Rightarrow> error + 'b" where
  "bind x f = (case x of Inl e \<Rightarrow> Inl e | Inr v \<Rightarrow> f v)"

subsection \<open>Python operations on decoded JSON\<close>

text \<open>\<^verbatim>\<open>key in value\<close> for a string key: dict membership, list membership, substring test;
  any other operand is not iterable.\<close>

fun py_in :: "string \<Rightarrow> json \<Rightarrow> error + bool" where
  "py_in k (JObj kvs) = Inr (k \<in> set (map fst kvs))"
| "py_in k (JArr xs) = Inr (JStr k \<in> set xs)"
| "py_in k (JStr s) = Inr (sublist k s)"
| "py_in k _ = Inl TypeError"

text \<open>\<^verbatim>\<open>value.get(key, default)\<close>: only a dict has the method.\<close>

fun py_get :: "json \<Rightarrow> string \<Rightarrow> json \<Rightarrow> error + json" where
  "py_get (JObj kvs) k d = Inr (case map_of kvs k of None \<Rightarrow> d | Some v \<Rightarrow> v)"
| "py_get _ k d = Inl AttributeError"

text \<open>\<^verbatim>\<open>len(value)\<close>.\<close>

fun py_len :: "json \<Rightarrow> error + int" where
  "py_len (JObj kvs) = Inr (int (length kvs))"
| "py_len (JArr xs) = Inr (int (length xs))"
| "py_len (JStr s) = Inr (int (length s))"
| "py_len _ = Inl TypeError"

text \<open>\<^verbatim>\<open>value[part]\<close> with a string subscript.\<close>

fun py_getitem :: "json \<Rightarrow> string \<Rightarrow> error + json" where
  "py_getitem (JObj kvs) k = (case map_of kvs k of None \<Rightarrow> Inl KeyError | Some v \<Rightarrow> Inr v)"
| "py_getitem _ k = Inl TypeError"

text \<open>\<^verbatim>\<open>value[0]\<close>; the keys of a decoded JSON object are strings, so \<^verbatim>\<open>0\<close> is never one.\<close>

fun py_getitem0 :: "json \<Rightarrow> error + json" where
  "py_getitem0 (JArr []) = Inl IndexError"
| "py_getitem0 (JArr (x # xs)) = Inr x"
| "py_getitem0 (JStr []) = Inl IndexError"
| "py_getitem0 (JStr (c # cs)) = Inr (JStr [c])"
| "py_getitem0 (JObj kvs) = Inl KeyError"
| "py_getitem0 _ = Inl TypeError"

text \<open>Truth value of an object, as \<^verbatim>\<open>if forecast_list:\<close> tests it.\<close>

fun truthy :: "json \<Rightarrow> bool" where
  "truthy JNull = False"
| "truthy (JBool b) = b"
| "truthy (JInt n) = (n \<noteq> 0)"
| "truthy (JFloat x) = (x \<noteq> 0)"
| "truthy (JStr s) = (s \<noteq> [])"
| "truthy (JArr xs) = (xs \<noteq> [])"
| "truthy (JObj kvs) = (kvs \<noteq> [])"

text \<open>\<^verbatim>\<open>value < c\<close> and \<^verbatim>\<open>value > c\<close> against a number; \<^verbatim>\<open>bool\<close> is a subtype of \<^verbatim>\<open>int\<close>.\<close>

fun py_lt :: "json \<Rightarrow> rat \<Rightarrow> error + bool" where
  "py_lt (JInt n) c = Inr (of_int n < c)"
| "py_lt (JFloat x) c = Inr (x < c)"
| "py_lt (JBool b) c = Inr (of_bool b < c)"
| "py_lt _ c = Inl TypeError"

fun py_gt :: "json \<Rightarrow> rat \<Rightarrow> error + bool" where
  "py_gt (JInt n) c = Inr (of_int n > c)"
| "py_gt (JFloat x) c = Inr (x > c)"
| "py_gt (JBool b) c = Inr (of_bool b > c)"
| "py_gt _ c = Inl TypeError"

text \<open>\<^verbatim>\<open>field.split('.')\<close>.\<close>

fun split_dot :: "string \<Rightarrow> string list" where
  "split_dot [] = [] # []"
| "split_dot (c # cs) =
     (if c = CHR ''.'' then [] # split_dot cs
      else (case split_dot cs of [] \<Rightarrow> [c] # [] | p # ps \<Rightarrow> (c # p) # ps))"

subsection \<open>Binary64 arithmetic\<close>

text \<open>
  Python's \<^verbatim>\<open>float\<close> is IEEE 754 binary64. The model rounds an exact rational result to the
  nearest number with a 53-bit significand, ties to even; the exponent range is left
  unbounded, so overflow to infinity, subnormal numbers and NaN are outside the model.
\<close>

definition round_half_even :: "rat \<Rightarrow> int" where
  "round_half_even x =
     (let f = \<lfloor>x\<rfloor>; r = x - of_int f
      in if r < 1 / 2 then f else if 1 / 2 < r then f + 1 else if even f then f else f + 1)"

text \<open>\<open>ilog2 x\<close> is the integer part of the binary logarithm of a positive \<open>x\<close>.\<close>

definition ilog2 :: "rat \<Rightarrow> int" where
  "ilog2 x =
     (let (p, q) = quotient_of x; d = bitlen p - bitlen q
      in if power_int 2 d \<le> x then d else d - 1)"

definition fl :: "rat \<Rightarrow> rat" where
  "fl x =
     (if x = 0 then 0
      else let u = power_int 2 (ilog2 \<bar>x\<bar> - 52) in of_int (round_half_even (x / u)) * u)"

text \<open>\<^verbatim>\<open>round(x, 2)\<close> on a float: the decimal with two places nearest to the exact value of
  \<open>x\<close> (ties to even), converted back to the nearest float.\<close>

definition py_round2 :: "rat \<Rightarrow> rat" where
  "py_round2 x = fl (of_int (round_half_even (x * 100)) / 100)"

text \<open>The literal \<^verbatim>\<open>0.277778\<close>.\<close>

definition KPH_TO_MS :: rat where
  "KPH_TO_MS = fl (277778 / 1000000)"

text \<open>\<^verbatim>\<open>value * 0.277778\<close>: an \<^verbatim>\<open>int\<close> is converted to float first, which raises
  OverflowError when it rounds beyond the largest finite float; a string, list, dict or
  \<^verbatim>\<open>None\<close> cannot be multiplied by a float.\<close>

fun py_mul_float :: "json \<Rightarrow> rat \<Rightarrow> error + rat" where
  "py_mul_float (JFloat x) c = Inr (fl (x * c))"
| "py_mul_float (JInt n) c =
     (if 2 ^ 1024 - 2 ^ 970 \<le> \<bar>n\<bar> then Inl OverflowError else Inr (fl (fl (of_int n) * c)))"
| "py_mul_float (JBool b) c = Inr (fl (of_bool b * c))"
| "py_mul_float _ c = Inl TypeError"

section \<open>Records of the agent\<close>

text \<open>The dict a fetch returns (\<^verbatim>\<open>{'api': .., 'city': .., 'data': ..}\<close>), to which the assessment
  attaches \<^verbatim>\<open>quality_score\<close>.\<close>

record raw_record =
  api :: string
  city :: string
  data :: json
  quality_score :: "int option"

text \<open>The two f-strings of \<^verbatim>\<open>forecast_summary\<close>, kept with the value they interpolate.\<close>

datatype summary =
    ThreeHourSteps json
  | FiveDayForecast json

text \<open>The dict \<^verbatim>\<open>_process_raw_data\<close> builds. Its \<^verbatim>\<open>quality_score\<close> is an integer or the string
  \<^verbatim>\<open>'N/A'\<close>, so it is a \<open>json\<close> value here; \<open>JNull\<close> is \<^verbatim>\<open>None\<close>.\<close>

record processed =
  p_city :: string
  p_collection_timestamp :: string
  source_api :: string
  p_quality_score :: json
  current_temp_c :: json
  current_humidity_p :: json
  current_wind_speed_m_s :: json
  forecast_summary :: "summary option"

text \<open>The issue strings, kept with the values they interpolate.\<close>

datatype issue =
    SuspectTemp string string json
  | HardFailure string int
  | AgentCrash error

record metrics =
  total_requests :: int
  successful_requests :: int
  failures :: int
  data_points_collected :: int
  owm_success :: int
  wapi_success :: int
  total_quality_score :: int
  issues :: "issue list"

section \<open>Data quality assessment\<close>

text \<open>The condition of the forecast check: \<^verbatim>\<open>'forecast' not in data or
  len(data.get('forecast', {}).get(key, [])) < n\<close>. It is evaluated outside any
  \<^verbatim>\<open>try\<close>, so what it raises leaves \<^verbatim>\<open>_assess_and_log_quality\<close>.\<close>

definition forecast_incomplete :: "json \<Rightarrow> string \<Rightarrow> int \<Rightarrow> error + bool" where
  "forecast_incomplete d key n =
     bind (py_in ''forecast'' d) (\<lambda>present.
       if \<not> present then Inr True
       else bind (py_get d ''forecast'' (JObj [])) (\<lambda>f.
            bind (py_get f key (JArr [])) (\<lambda>l.
            bind (py_len l) (\<lambda>k. Inr (k < n)))))"

definition required_fields :: "string \<Rightarrow> string list" where
  "required_fields a =
     (if a = ''OpenWeatherMap''
        then [''current.main.temp'', ''current.main.humidity'', ''current.wind.speed'']
      else if a = ''WeatherAPI''
        then [''current.temp_c'', ''current.humidity'', ''current.wind_kph'']
      else [])"

definition forecast_check :: "string \<Rightarrow> json \<Rightarrow> error + bool" where
  "forecast_check a d =
     (if a = ''OpenWeatherMap'' then forecast_incomplete d ''list'' 30
      else if a = ''WeatherAPI'' then forecast_incomplete d ''forecastday'' 5
      else Inr False)"

text \<open>The inner loop \<^verbatim>\<open>for part in parts: value = value[part]\<close>.\<close>

fun resolve :: "json \<Rightarrow> string list \<Rightarrow> error + json" where
  "resolve v [] = Inr v"
| "resolve v (part # parts) = bind (py_getitem v part) (\<lambda>v'. resolve v' parts)"

text \<open>The loop over the required fields, on the running score and the metrics. The handler is
  \<^verbatim>\<open>except (KeyError, TypeError)\<close>; another exception would leave the loop.\<close>

fun check_fields :: "json \<Rightarrow> string list \<Rightarrow> int \<times> metrics \<Rightarrow> error + int \<times> metrics" where
  "check_fields d [] (score, m) = Inr (score, m)"
| "check_fields d (field # rest) (score, m) =
     (case resolve d (split_dot field) of
        Inr v \<Rightarrow>
          check_fields d rest (score, m\<lparr>data_points_collected := data_points_collected m + 1\<rparr>)
      | Inl e \<Rightarrow>
          if e = KeyError \<or> e = TypeError then check_fields d rest (score - 5, m) else Inl e)"

text \<open>The temperature read by the validity check, through \<^verbatim>\<open>.get\<close> chains.\<close>

definition temp_lookup :: "string \<Rightarrow> json \<Rightarrow> error + json" where
  "temp_lookup a d =
     (if a = ''OpenWeatherMap''
        then bind (py_get d ''current'' (JObj [])) (\<lambda>c.
             bind (py_get c ''main'' (JObj [])) (\<lambda>mn. py_get mn ''temp'' JNull))
      else if a = ''WeatherAPI''
        then bind (py_get d ''current'' (JObj [])) (\<lambda>c. py_get c ''temp_c'' JNull)
      else Inr JNull)"

text \<open>\<^verbatim>\<open>temp_value is not None and (temp_value < -70 or temp_value > 50)\<close>.\<close>

definition suspect :: "json \<Rightarrow> error + bool" where
  "suspect t =
     (if t = JNull then Inr False
      else bind (py_lt t (- 70)) (\<lambda>low. if low then Inr True else py_gt t 50))"

text \<open>The validity check; \<^verbatim>\<open>except Exception: pass\<close> swallows whatever its body raises.\<close>

definition validity_check :: "raw_record \<Rightarrow> int \<times> metrics \<Rightarrow> int \<times> metrics" where
  "validity_check r sm =
     (case bind (temp_lookup (api r) (data r)) (\<lambda>t. bind (suspect t) (\<lambda>b. Inr (t, b))) of
        Inl e \<Rightarrow> sm
      | Inr (t, b) \<Rightarrow>
          if b then (fst sm - 10,
                     (snd sm)\<lparr>issues := issues (snd sm) @ [SuspectTemp (city r) (api r) t]\<rparr>)
          else sm)"

text \<open>The value of \<^verbatim>\<open>completeness_score\<close> when line 243 is reached, with the metrics then.\<close>

definition completeness_score :: "raw_record \<Rightarrow> metrics \<Rightarrow> error + int \<times> metrics" where
  "completeness_score r m =
     bind (forecast_check (api r) (data r)) (\<lambda>incomplete.
     bind (check_fields (data r) (required_fields (api r))
             (if incomplete then 100 - 20 else 100, m)) (\<lambda>sm.
     Inr (validity_check r sm)))"

text \<open>\<^verbatim>\<open>_assess_and_log_quality\<close>: the record with its score attached, and the metrics. Nothing
  is mutated before the only statement that can raise, so an exception leaves the metrics
  as they were.\<close>

definition assess_and_log_quality ::
  "raw_record \<Rightarrow> metrics \<Rightarrow> (error + raw_record) \<times> metrics" where
  "assess_and_log_quality r m =
     (case completeness_score r m of
        Inl e \<Rightarrow> (Inl e, m)
      | Inr (score, m') \<Rightarrow>
          (Inr (r\<lparr>quality_score := Some (max 0 score)\<rparr>),
           m'\<lparr>total_quality_score := total_quality_score m' + max 0 score\<rparr>))"

section \<open>Data processing and standardization\<close>

text \<open>The body of the \<^verbatim>\<open>try\<close> of \<^verbatim>\<open>_process_raw_data\<close>, for each source. The dict
  \<^verbatim>\<open>processed\<close> is filled in place, so an exception leaves the fields assigned before it:
  the result is the dict reached, with the exception if one was raised.\<close>

definition standardize_owm :: "json \<Rightarrow> processed \<Rightarrow> error option \<times> processed" where
  "standardize_owm d p =
     (case py_get d ''current'' (JObj []) of Inl e \<Rightarrow> (Some e, p) | Inr current \<Rightarrow>
      case py_get current ''main'' (JObj []) of Inl e \<Rightarrow> (Some e, p) | Inr mn \<Rightarrow>
      case py_get current ''wind'' (JObj []) of Inl e \<Rightarrow> (Some e, p) | Inr wind \<Rightarrow>
      case py_get mn ''temp'' JNull of Inl e \<Rightarrow> (Some e, p) | Inr t \<Rightarrow>
      let p1 = p\<lparr>current_temp_c := t\<rparr> in
      case py_get mn ''humidity'' JNull of Inl e \<Rightarrow> (Some e, p1) | Inr h \<Rightarrow>
      let p2 = p1\<lparr>current_humidity_p := h\<rparr> in
      case py_get wind ''speed'' JNull of Inl e \<Rightarrow> (Some e, p2) | Inr w \<Rightarrow>
      let p3 = p2\<lparr>current_wind_speed_m_s := w\<rparr> in
      case bind (py_get d ''forecast'' (JObj [])) (\<lambda>f. py_get f ''list'' (JArr [])) of
        Inl e \<Rightarrow> (Some e, p3)
      | Inr forecast_list \<Rightarrow>
          if truthy forecast_list
          then (case bind (py_getitem0 forecast_list) (\<lambda>x. py_get x ''dt_txt'' JNull) of
                  Inl e \<Rightarrow> (Some e, p3)
                | Inr dt \<Rightarrow> (None, p3\<lparr>forecast_summary := Some (ThreeHourSteps dt)\<rparr>))
          else (None, p3))"

definition standardize_wapi :: "json \<Rightarrow> processed \<Rightarrow> error option \<times> processed" where
  "standardize_wapi d p =
     (case py_get d ''current'' (JObj []) of Inl e \<Rightarrow> (Some e, p) | Inr current \<Rightarrow>
      case py_get current ''temp_c'' JNull of Inl e \<Rightarrow> (Some e, p) | Inr t \<Rightarrow>
      let p1 = p\<lparr>current_temp_c := t\<rparr> in
      case py_get current ''humidity'' JNull of Inl e \<Rightarrow> (Some e, p1) | Inr h \<Rightarrow>
      let p2 = p1\<lparr>current_humidity_p := h\<rparr> in
      case py_get current ''wind_kph'' JNull of Inl e \<Rightarrow> (Some e, p2) | Inr wind_kph \<Rightarrow>
      case (if wind_kph \<noteq> JNull
            then bind (py_mul_float wind_kph KPH_TO_MS) (\<lambda>x.
                   Inr (p2\<lparr>current_wind_speed_m_s := JFloat (py_round2 x)\<rparr>))
            else Inr p2) of
        Inl e \<Rightarrow> (Some e, p2)
      | Inr p3 \<Rightarrow>
      case bind (py_get d ''forecast'' (JObj [])) (\<lambda>f. py_get f ''forecastday'' (JArr [])) of
        Inl e \<Rightarrow> (Some e, p3)
      | Inr forecast_day \<Rightarrow>
          if truthy forecast_day
          then (case bind (py_getitem0 forecast_day) (\<lambda>x. py_get x ''date'' JNull) of
                  Inl e \<Rightarrow> (Some e, p3)
                | Inr dt \<Rightarrow> (None, p3\<lparr>forecast_summary := Some (FiveDayForecast dt)\<rparr>))
          else (None, p3))"

definition standardize :: "raw_record \<Rightarrow> processed \<Rightarrow> error option \<times> processed" where
  "standardize r p =
     (if api r = ''OpenWeatherMap'' then standardize_owm (data r) p
      else if api r = ''WeatherAPI'' then standardize_wapi (data r) p
      else (None, p))"

text \<open>The dict literal \<^verbatim>\<open>processed = {...}\<close> of lines 256 to 265, given
  \<^verbatim>\<open>self.collection_timestamp\<close>.\<close>

definition blank_record :: "string \<Rightarrow> raw_record \<Rightarrow> processed" where
  "blank_record ts r =
     \<lparr>p_city = city r, p_collection_timestamp = ts, source_api = api r,
      p_quality_score = (case quality_score r of None \<Rightarrow> JStr ''N/A'' | Some q \<Rightarrow> JInt q),
      current_temp_c = JNull, current_humidity_p = JNull,
      current_wind_speed_m_s = JNull, forecast_summary = None\<rparr>"

text \<open>\<^verbatim>\<open>_process_raw_data\<close>. The result is \<open>Inr\<close> of the dict returned, or \<open>Inl\<close> of an
  exception that reaches the caller.\<close>

definition process_raw_data :: "string \<Rightarrow> raw_record \<Rightarrow> error + processed" where
  "process_raw_data ts r =
     (case standardize r (blank_record ts r) of
        (None, p) \<Rightarrow> Inr p
      | (Some e, p) \<Rightarrow> Inr (p\<lparr>p_quality_score := JInt 0\<rparr>))"

section \<open>The agent and its environment\<close>

text \<open>A number of \<^verbatim>\<open>config.json\<close>. Python keeps an \<^verbatim>\<open>int\<close> and a \<^verbatim>\<open>float\<close> apart, and they
  behave differently where they are too large.\<close>

datatype number =
    PyInt int
  | PyFloat rat

fun seconds :: "number \<Rightarrow> rat" where
  "seconds (PyInt n) = of_int n"
| "seconds (PyFloat x) = x"

text \<open>\<^verbatim>\<open>config.json\<close>: the API keys and the collection settings.\<close>

record config =
  OPENWEATHERMAP_KEY :: string
  WEATHERAPI_KEY :: string
  UNITS :: string
  CITIES :: "string list"
  MAX_RETRIES :: int
  RESPECTFUL_DELAY_SECONDS :: number
  API_PRIORITY :: "string list"

text \<open>What \<^verbatim>\<open>requests.get\<close> can give: a response with its status code and its body decoded
  by \<^verbatim>\<open>response.json()\<close> (\<open>None\<close> when decoding raises), or an exception.\<close>

datatype http_outcome =
    HttpResponse int "json option"
  | HttpException

text \<open>
  What the agent does to the world, in order: requests, the sleep of line 111 (\<open>Sleep\<close>), the
  sleep of line 172 (\<open>Backoff\<close>), the log line of each attempt with the loop variable and the
  city, the critical log line, and the files handed to persistence and reporting, each with
  the data it is rendered from. The other log lines change nothing and are left out, and
  writing a file is taken to succeed.
\<close>

datatype event =
    Get string
  | Sleep rat
  | Backoff rat
  | LogAttempt nat string
  | LogCritical error
  | SaveRaw "raw_record list"
  | SaveProcessed "processed list"
  | SaveMetadata metrics
  | QualityReport metrics "raw_record list"
  | CollectionSummary metrics

record agent =
  raw_data :: "raw_record list"
  processed_data :: "processed list"
  collection_timestamp :: string
  summary_metrics :: metrics
  trace :: "event list"

text \<open>The network answers a request from what has happened so far and the URL.\<close>

type_synonym net = "event list \<Rightarrow> string \<Rightarrow> http_outcome"

text \<open>A method of the agent returns a value or raises, and leaves the agent as it was then.\<close>

type_synonym 'a action = "agent \<Rightarrow> (error + 'a) \<times> agent"

text \<open>\<^verbatim>\<open>self.summary_metrics[field] += 1\<close>.\<close>

definition bump :: "((int \<Rightarrow> int) \<Rightarrow> metrics \<Rightarrow> metrics) \<Rightarrow> agent \<Rightarrow> agent" where
  "bump field s = summary_metrics_update (field (\<lambda>n. n + 1)) s"

definition emit :: "event \<Rightarrow> agent \<Rightarrow> agent" where
  "emit ev s = s\<lparr>trace := trace s @ [ev]\<rparr>"

definition requests_get :: "net \<Rightarrow> string \<Rightarrow> agent \<Rightarrow> http_outcome \<times> agent" where
  "requests_get nt url s = (nt (trace s) url, emit (Get url) s)"

text \<open>
  \<^verbatim>\<open>time.sleep\<close> first converts the length to a count of nanoseconds held in a signed 64-bit
  integer: an \<^verbatim>\<open>int\<close> is multiplied by \<open>10 ^ 9\<close> exactly, a \<^verbatim>\<open>float\<close> in binary64. A count
  that does not fit raises OverflowError; then a negative length raises ValueError.
\<close>

fun nanoseconds :: "number \<Rightarrow> rat" where
  "nanoseconds (PyInt n) = of_int n * 10 ^ 9"
| "nanoseconds (PyFloat x) = fl (x * 10 ^ 9)"

definition sleep_error :: "number \<Rightarrow> error option" where
  "sleep_error d =
     (if 2 ^ 63 \<le> nanoseconds d \<or> nanoseconds d < - (2 ^ 63) then Some OverflowError
      else if seconds d < 0 then Some ValueError
      else None)"

definition time_sleep :: "(rat \<Rightarrow> event) \<Rightarrow> number \<Rightarrow> unit action" where
  "time_sleep site d s =
     (case sleep_error d of
        Some e \<Rightarrow> (Inl e, s)
      | None \<Rightarrow> (Inr (), emit (site (seconds d)) s))"

text \<open>
  Line 170, \<^verbatim>\<open>delay = RESPECTFUL_DELAY_SECONDS * (2 ** attempt)\<close>. On an \<^verbatim>\<open>int\<close> the product
  is exact. On a \<^verbatim>\<open>float\<close> the power is converted to float first, which raises OverflowError
  from \<^verbatim>\<open>2 ** 1024\<close> on; below that the product of a float and a power of two is exact. (A
  product beyond the largest float is infinite in Python; here it stays a number that large,
  and \<^verbatim>\<open>time.sleep\<close> raises OverflowError on either. So does formatting a too large
  \<^verbatim>\<open>int\<close> in the log line 171, just before \<^verbatim>\<open>time.sleep\<close> would.)
\<close>

fun backoff_delay :: "number \<Rightarrow> nat \<Rightarrow> error + number" where
  "backoff_delay (PyInt n) attempt = Inr (PyInt (n * 2 ^ attempt))"
| "backoff_delay (PyFloat x) attempt =
     (if 1024 \<le> attempt then Inl OverflowError else Inr (PyFloat (x * 2 ^ attempt)))"

section \<open>Fetching from the two sources\<close>

text \<open>The loop of \<^verbatim>\<open>_fetch_owm_data\<close> over the endpoints, on \<^verbatim>\<open>data\<close> and
  \<^verbatim>\<open>overall_success\<close>.\<close>

fun owm_endpoints ::
  "config \<Rightarrow> net \<Rightarrow> (string \<times> string) list \<Rightarrow> (string \<times> json) list \<times> bool
     \<Rightarrow> ((string \<times> json) list \<times> bool) action" where
  "owm_endpoints cfg nt [] acc s = (Inr acc, s)"
| "owm_endpoints cfg nt ((name, url) # rest) (dat, overall_success) s =
     (let s1 = bump total_requests_update s;
          (out, s2) = requests_get nt url s1;
          (acc', s3) =
            (case out of
               HttpResponse status body \<Rightarrow>
                 (if status = 200
                  then (case body of
                          Some j \<Rightarrow> ((AList.update name j dat, True), bump owm_success_update s2)
                        | None \<Rightarrow> ((dat, overall_success), s2))
                  else ((dat, overall_success), s2))
             | HttpException \<Rightarrow> ((dat, overall_success), s2))
      in case time_sleep Sleep (RESPECTFUL_DELAY_SECONDS cfg) s3 of
           (Inl e, s4) \<Rightarrow> (Inl e, s4)
         | (Inr u, s4) \<Rightarrow> owm_endpoints cfg nt rest acc' s4)"

definition owm_urls :: "config \<Rightarrow> string \<Rightarrow> (string \<times> string) list" where
  "owm_urls cfg cty =
     [(''current'', ''http://api.openweathermap.org/data/2.5/weather?q='' @ cty @ ''&units=''
                      @ UNITS cfg @ ''&appid='' @ OPENWEATHERMAP_KEY cfg),
      (''forecast'', ''http://api.openweathermap.org/data/2.5/forecast?q='' @ cty @ ''&units=''
                      @ UNITS cfg @ ''&appid='' @ OPENWEATHERMAP_KEY cfg)]"

definition fetch_owm_data :: "config \<Rightarrow> net \<Rightarrow> string \<Rightarrow> (raw_record option) action" where
  "fetch_owm_data cfg nt cty s =
     (case owm_endpoints cfg nt (owm_urls cfg cty) ([], False) s of
        (Inl e, s') \<Rightarrow> (Inl e, s')
      | (Inr (dat, overall_success), s') \<Rightarrow>
          (Inr (if overall_success
                then Some \<lparr>api = ''OpenWeatherMap'', city = cty, data = JObj dat,
                           quality_score = None\<rparr>
                else None), s'))"

definition wapi_url :: "config \<Rightarrow> string \<Rightarrow> string" where
  "wapi_url cfg cty =
     ''http://api.weatherapi.com/v1/forecast.json?key='' @ WEATHERAPI_KEY cfg @ ''&q='' @ cty
       @ ''&days=5''"

text \<open>\<^verbatim>\<open>_fetch_wapi_data\<close>; the success counter is incremented before the body is decoded.\<close>

definition fetch_wapi_data :: "config \<Rightarrow> net \<Rightarrow> string \<Rightarrow> (raw_record option) action" where
  "fetch_wapi_data cfg nt cty s =
     (let s1 = bump total_requests_update s;
          (out, s2) = requests_get nt (wapi_url cfg cty) s1
      in case out of
           HttpResponse status body \<Rightarrow>
             (if status = 200
              then (case body of
                      Some j \<Rightarrow>
                        (Inr (Some \<lparr>api = ''WeatherAPI'', city = cty, data = j,
                                    quality_score = None\<rparr>), bump wapi_success_update s2)
                    | None \<Rightarrow> (Inr None, bump wapi_success_update s2))
              else (Inr None, s2))
         | HttpException \<Rightarrow> (Inr None, s2))"

section \<open>The collection loop\<close>

text \<open>The loop over \<^verbatim>\<open>API_PRIORITY\<close>. It is entered with \<^verbatim>\<open>data\<close> being \<^verbatim>\<open>None\<close>, and a
  name that is neither source leaves it so.\<close>

fun try_apis :: "config \<Rightarrow> net \<Rightarrow> string \<Rightarrow> string list \<Rightarrow> (raw_record option) action" where
  "try_apis cfg nt cty [] s = (Inr None, s)"
| "try_apis cfg nt cty (api_name # rest) s =
     (case (if api_name = ''OpenWeatherMap'' then fetch_owm_data cfg nt cty s
            else if api_name = ''WeatherAPI'' then fetch_wapi_data cfg nt cty s
            else (Inr None, s)) of
        (Inl e, s1) \<Rightarrow> (Inl e, s1)
      | (Inr (Some d), s1) \<Rightarrow> (Inr (Some d), bump successful_requests_update s1)
      | (Inr None, s1) \<Rightarrow> try_apis cfg nt cty rest s1)"

text \<open>The retry loop, over the values of \<^verbatim>\<open>attempt\<close> still to come.\<close>

fun retry_loop :: "config \<Rightarrow> net \<Rightarrow> string \<Rightarrow> nat list \<Rightarrow> (raw_record option) action" where
  "retry_loop cfg nt cty [] s = (Inr None, s)"
| "retry_loop cfg nt cty (attempt # rest) s =
     (case try_apis cfg nt cty (API_PRIORITY cfg) (emit (LogAttempt attempt cty) s) of
        (Inl e, s1) \<Rightarrow> (Inl e, s1)
      | (Inr (Some d), s1) \<Rightarrow> (Inr (Some d), s1)
      | (Inr None, s1) \<Rightarrow>
          (if int attempt < MAX_RETRIES cfg - 1
           then (case backoff_delay (RESPECTFUL_DELAY_SECONDS cfg) attempt of
                   Inl e \<Rightarrow> (Inl e, s1)
                 | Inr delay \<Rightarrow>
                     (case time_sleep Backoff delay s1 of
                        (Inl e, s2) \<Rightarrow> (Inl e, s2)
                      | (Inr u, s2) \<Rightarrow> retry_loop cfg nt cty rest s2))
           else retry_loop cfg nt cty rest s1))"

text \<open>The body of the loop over the cities. The record appended to \<^verbatim>\<open>raw_data\<close> is the object
  the assessment then mutates, so the list holds it with its score.\<close>

definition collect_city :: "config \<Rightarrow> net \<Rightarrow> string \<Rightarrow> unit action" where
  "collect_city cfg nt cty s =
     (case retry_loop cfg nt cty [0..<nat (MAX_RETRIES cfg)] s of
        (Inl e, s1) \<Rightarrow> (Inl e, s1)
      | (Inr (Some d), s1) \<Rightarrow>
          (let s2 = s1\<lparr>raw_data := raw_data s1 @ [d]\<rparr>
           in case assess_and_log_quality d (summary_metrics s2) of
                (Inl e, m) \<Rightarrow> (Inl e, s2\<lparr>summary_metrics := m\<rparr>)
              | (Inr d', m) \<Rightarrow>
                  (let s3 = s2\<lparr>raw_data := raw_data s1 @ [d'], summary_metrics := m\<rparr>
                   in case process_raw_data (collection_timestamp s3) d' of
                        Inl e \<Rightarrow> (Inl e, s3)
                      | Inr p \<Rightarrow> (Inr (), s3\<lparr>processed_data := processed_data s3 @ [p]\<rparr>)))
      | (Inr None, s1) \<Rightarrow>
          (Inr (), summary_metrics_update
                     (\<lambda>m. m\<lparr>failures := failures m + 1,
                             issues := issues m @ [HardFailure cty (MAX_RETRIES cfg)]\<rparr>) s1))"

fun collect_cities :: "config \<Rightarrow> net \<Rightarrow> string list \<Rightarrow> unit action" where
  "collect_cities cfg nt [] s = (Inr (), s)"
| "collect_cities cfg nt (cty # rest) s =
     (case collect_city cfg nt cty s of
        (Inl e, s1) \<Rightarrow> (Inl e, s1)
      | (Inr u, s1) \<Rightarrow> collect_cities cfg nt rest s1)"

definition collect_data :: "config \<Rightarrow> net \<Rightarrow> unit action" where
  "collect_data cfg nt s = collect_cities cfg nt (CITIES cfg) s"

section \<open>Saving, reporting and the workflow\<close>

definition save_data :: "agent \<Rightarrow> agent" where
  "save_data s =
     (if raw_data s = [] then s
      else emit (SaveProcessed (processed_data s)) (emit (SaveRaw (raw_data s)) s))"

definition generate_and_save_metadata :: "agent \<Rightarrow> agent" where
  "generate_and_save_metadata s = emit (SaveMetadata (summary_metrics s)) s"

definition generate_quality_report :: "agent \<Rightarrow> agent" where
  "generate_quality_report s = emit (QualityReport (summary_metrics s) (raw_data s)) s"

text \<open>The summary divides by \<^verbatim>\<open>total_requests\<close> unguarded (line 499).\<close>

definition generate_collection_summary :: "unit action" where
  "generate_collection_summary s =
     (if total_requests (summary_metrics s) = 0 then (Inl ZeroDivisionError, s)
      else (Inr (), emit (CollectionSummary (summary_metrics s)) s))"

text \<open>\<^verbatim>\<open>run_agent\<close>: the \<^verbatim>\<open>try\<close> block, and the handler of \<^verbatim>\<open>except Exception\<close>.\<close>

definition workflow :: "config \<Rightarrow> net \<Rightarrow> unit action" where
  "workflow cfg nt s =
     (case collect_data cfg nt s of
        (Inl e, s1) \<Rightarrow> (Inl e, s1)
      | (Inr u, s1) \<Rightarrow>
          generate_collection_summary
            (generate_quality_report (generate_and_save_metadata (save_data s1))))"

definition crash_handler :: "error \<Rightarrow> unit action" where
  "crash_handler e s =
     generate_collection_summary
       (generate_quality_report
          (summary_metrics_update (\<lambda>m. m\<lparr>issues := issues m @ [AgentCrash e]\<rparr>)
             (emit (LogCritical e) s)))"

definition run_agent :: "config \<Rightarrow> net \<Rightarrow> unit action" where
  "run_agent cfg nt s =
     (case workflow cfg nt s of
        (Inl e, s1) \<Rightarrow> crash_handler e s1
      | (Inr u, s1) \<Rightarrow> (Inr (), s1))"

text \<open>The agent as \<^verbatim>\<open>__init__\<close> leaves it.\<close>

definition init_agent :: "string \<Rightarrow> agent" where
  "init_agent ts =
     \<lparr>raw_data = [], processed_data = [], collection_timestamp = ts,
      summary_metrics =
        \<lparr>total_requests = 0, successful_requests = 0, failures = 0, data_points_collected = 0,
         owm_success = 0, wapi_success = 0, total_quality_score = 0, issues = []\<rparr>,
      trace = []\<rparr>"

section \<open>Notions of the specification\<close>

text \<open>An empty section: \<^verbatim>\<open>{}\<close>, \<^verbatim>\<open>[]\<close>, \<^verbatim>\<open>''\<close> or \<^verbatim>\<open>null\<close>. A payload whose data sections are
  all empty is a dict whose sections, if it has any, are each one of these.\<close>

fun empty_section :: "json \<Rightarrow> bool" where
  "empty_section JNull = True"
| "empty_section (JStr s) = (s = [])"
| "empty_section (JArr xs) = (xs = [])"
| "empty_section (JObj kvs) = (kvs = [])"
| "empty_section v = False"

fun sections_empty :: "json \<Rightarrow> bool" where
  "sections_empty (JObj kvs) = list_all (\<lambda>kv. empty_section (snd kv)) kvs"
| "sections_empty v = False"

text \<open>The section of a payload under a name, if the payload is a dict that has it.\<close>

fun section_of :: "json \<Rightarrow> string \<Rightarrow> json option" where
  "section_of (JObj kvs) k = map_of kvs k"
| "section_of v k = None"

text \<open>A section that is there and is not the empty dict: of the empty sections, \<^verbatim>\<open>[]\<close>,
  \<^verbatim>\<open>''\<close> and \<^verbatim>\<open>null\<close>.\<close>

definition not_a_dict :: "json \<Rightarrow> string \<Rightarrow> bool" where
  "not_a_dict d k = (case section_of d k of None \<Rightarrow> False | Some v \<Rightarrow> v \<noteq> JObj [])"

text \<open>The value at a path of keys, when every step is into a dict that has the key.\<close>

fun field_at :: "json \<Rightarrow> string list \<Rightarrow> json option" where
  "field_at v [] = Some v"
| "field_at (JObj kvs) (k # ks) = (case map_of kvs k of None \<Rightarrow> None | Some v \<Rightarrow> field_at v ks)"
| "field_at v (k # ks) = None"

text \<open>A temperature that is present, is a number, and lies outside the interval from -70 to 50.\<close>

fun out_of_range :: "json option \<Rightarrow> bool" where
  "out_of_range (Some (JInt n)) = (n < - 70 \<or> 50 < n)"
| "out_of_range (Some (JFloat x)) = (x < - 70 \<or> 50 < x)"
| "out_of_range t = False"

text \<open>
  The score of the specification for a payload of the two-endpoint source that holds the
  section \<^verbatim>\<open>current\<close> alone, with body \<open>j\<close>: 100, less 20 for the forecast, less 5 for each
  of the three required fields that \<open>j\<close> does not have, less 10 for a suspect temperature.
\<close>

definition current_paths :: "string list list" where
  "current_paths = [''main'', ''temp''] # [''main'', ''humidity''] # [''wind'', ''speed''] # []"

definition current_only_score :: "json \<Rightarrow> int" where
  "current_only_score j =
     100 - 20
       - 5 * int (length (filter (\<lambda>path. field_at j path = None) current_paths))
       - (if out_of_range (field_at j [''main'', ''temp'']) then 10 else 0)"

text \<open>A length that \<^verbatim>\<open>time.sleep\<close> accepts.\<close>

definition legal_sleep :: "number \<Rightarrow> bool" where
  "legal_sleep d \<longleftrightarrow> sleep_error d = None"

text \<open>An endpoint call succeeds when the status is 200 and the body decodes; otherwise it
  failed.\<close>

fun succeeded :: "http_outcome \<Rightarrow> bool" where
  "succeeded (HttpResponse status (Some j)) = (status = 200)"
| "succeeded (HttpResponse status None) = False"
| "succeeded HttpException = False"

text \<open>The events of the retry loop itself: the start of an attempt and the backoff sleep.\<close>

fun is_retry_event :: "event \<Rightarrow> bool" where
  "is_retry_event (LogAttempt k c) = True"
| "is_retry_event (Backoff d) = True"
| "is_retry_event ev = False"

text \<open>What the retry loop leaves alone: the two collections, the run identifier, the failure
  counter and the issue log.\<close>

definition kept :: "agent \<Rightarrow> agent \<Rightarrow> bool" where
  "kept s s' \<longleftrightarrow>
     raw_data s' = raw_data s \<and> processed_data s' = processed_data s
     \<and> collection_timestamp s' = collection_timestamp s
     \<and> failures (summary_metrics s') = failures (summary_metrics s)
     \<and> issues (summary_metrics s') = issues (summary_metrics s)"

text \<open>A fetch moreover leaves the success counter alone, and adds to what has happened, but no
  event of the retry loop.\<close>

definition frame :: "agent \<Rightarrow> agent \<Rightarrow> bool" where
  "frame s s' \<longleftrightarrow>
     kept s s'
     \<and> successful_requests (summary_metrics s') = successful_requests (summary_metrics s)
     \<and> (\<exists>new. trace s' = trace s @ new \<and> filter is_retry_event new = [])"

text \<open>
  The retry schedule of the specification, with attempts numbered from 0 as the loop variable
  \<^verbatim>\<open>attempt\<close> is: no backoff before attempt 0, and before attempt \<open>k\<close> a backoff of the
  base delay (in seconds) times \<open>2 ^ (k - 1)\<close>. \<open>schedule cfg cty n\<close> is what \<open>n\<close> attempts show of
  it: every attempt preceded by its backoff, and nothing after the last attempt.
\<close>

definition backoff_before :: "config \<Rightarrow> nat \<Rightarrow> event list" where
  "backoff_before cfg k =
     (if k = 0 then [] else [Backoff (seconds (RESPECTFUL_DELAY_SECONDS cfg) * 2 ^ (k - 1))])"

definition schedule :: "config \<Rightarrow> string \<Rightarrow> nat \<Rightarrow> event list" where
  "schedule cfg cty n = concat (map (\<lambda>k. backoff_before cfg k @ [LogAttempt k cty]) [0..<n])"

text \<open>The same for the attempts from \<open>a\<close> on, the first of them without its backoff.\<close>

fun schedule_from :: "config \<Rightarrow> string \<Rightarrow> nat \<Rightarrow> nat \<Rightarrow> event list" where
  "schedule_from cfg cty a 0 = []"
| "schedule_from cfg cty a (Suc n) =
     LogAttempt a cty #
       (if n = 0 then []
        else Backoff (seconds (RESPECTFUL_DELAY_SECONDS cfg) * 2 ^ a) # schedule_from cfg cty (Suc a) n)"

text \<open>A location's contribution to \<^verbatim>\<open>successful_requests\<close>: 1 when the loops end with a payload.\<close>

fun gain :: "error + raw_record option \<Rightarrow> int" where
  "gain (Inr (Some d)) = 1"
| "gain res = 0"

text \<open>The hard-failure entries of the issue log.\<close>

fun is_hard_failure :: "issue \<Rightarrow> bool" where
  "is_hard_failure (HardFailure c n) = True"
| "is_hard_failure i = False"

text \<open>Given, for each configured location in turn, whether a record was collected for it:
  the locations with a record, and those without.\<close>

definition collected :: "string list \<Rightarrow> bool list \<Rightarrow> string list" where
  "collected cs outcome = map fst (filter snd (zip cs outcome))"

definition failed :: "string list \<Rightarrow> bool list \<Rightarrow> string list" where
  "failed cs outcome = map fst (filter (\<lambda>co. \<not> snd co) (zip cs outcome))"

text \<open>
  The respectful-delay rule of the specification, read off what has happened: after a request,
  a sleep of at least the delay \<open>d\<close> comes before the next request. \<open>pending\<close> says that a
  request has been made and no such sleep since.
\<close>

fun respectful :: "rat \<Rightarrow> bool \<Rightarrow> event list \<Rightarrow> bool" where
  "respectful d pending [] = True"
| "respectful d pending (Get u # tr) = (\<not> pending \<and> respectful d True tr)"
| "respectful d pending (Sleep x # tr) = respectful d (pending \<and> x < d) tr"
| "respectful d pending (Backoff x # tr) = respectful d (pending \<and> x < d) tr"
| "respectful d pending (ev # tr) = respectful d pending tr"

text \<open>The artifacts handed to persistence and reporting, in order, by kind.\<close>

fun artifact :: "event \<Rightarrow> string list" where
  "artifact (SaveRaw rs) = [''raw'']"
| "artifact (SaveProcessed ps) = [''processed'']"
| "artifact (SaveMetadata m) = [''metadata'']"
| "artifact (QualityReport m rs) = [''quality_report'']"
| "artifact (CollectionSummary m) = [''collection_summary'']"
| "artifact ev = []"

definition artifacts :: "event list \<Rightarrow> string list" where
  "artifacts tr = concat (map artifact tr)"

section \<open>Example inputs\<close>

definition example_config :: config where
  "example_config =
     \<lparr>OPENWEATHERMAP_KEY = ''k1'', WEATHERAPI_KEY = ''k2'', UNITS = ''metric'',
      CITIES = [''Oslo'', ''Lima''], MAX_RETRIES = 3, RESPECTFUL_DELAY_SECONDS = PyInt 1,
      API_PRIORITY = [''OpenWeatherMap'', ''WeatherAPI'']\<rparr>"

text \<open>A complete body of the \<^verbatim>\<open>current\<close> endpoint of the two-endpoint source.\<close>

definition oslo_current :: json where
  "oslo_current =
     JObj [(''main'', JObj [(''temp'', JFloat (25 / 2)), (''humidity'', JInt 80)]),
           (''wind'', JObj [(''speed'', JFloat (7 / 2))])]"

text \<open>A network on which the first request of the run is answered and every later one gets
  status 500.\<close>

definition first_call_only :: net where
  "first_call_only tr url =
     (if tr = [] then HttpResponse 200 (Some oslo_current) else HttpResponse 500 None)"

text \<open>A configuration that asks the one-endpoint source only.\<close>

definition wapi_only_config :: config where
  "wapi_only_config =
     \<lparr>OPENWEATHERMAP_KEY = ''k1'', WEATHERAPI_KEY = ''k2'', UNITS = ''metric'',
      CITIES = [''Oslo'', ''Lima''], MAX_RETRIES = 3, RESPECTFUL_DELAY_SECONDS = PyInt 1,
      API_PRIORITY = [''WeatherAPI'']\<rparr>"

text \<open>A network on which every request raises, and one that answers every request.\<close>

definition no_network :: net where
  "no_network tr url = HttpException"

definition always_ok :: net where
  "always_ok tr url = HttpResponse 200 (Some oslo_current)"

text \<open>A network on which the one-endpoint source knows Oslo and nothing else answers.\<close>

definition oslo_only :: net where
  "oslo_only tr url =
     (if url = ''http://api.weatherapi.com/v1/forecast.json?key=k2&q=Oslo&days=5''
      then HttpResponse 200
             (Some (JObj [(''current'', JObj [(''temp_c'', JFloat 21), (''humidity'', JInt 60)])]))
      else HttpException)"

text \<open>A network that answers every request with a body whose \<^verbatim>\<open>forecast\<close> is a JSON array.\<close>

definition odd_forecast :: net where
  "odd_forecast tr url = HttpResponse 200 (Some (JObj [(''forecast'', JArr [])]))"

section \<open>Properties of the quality assessment\<close>

lemma bind_simps [simp]: "bind (Inl e) f = Inl e" "bind (Inr v) f = f v"
  by (simp_all add: bind_def)

lemma bind_eq_Inr: "bind x f = Inr y \<longleftrightarrow> (\<exists>v. x = Inr v \<and> f v = Inr y)"
  by (cases x) simp_all

lemma bind_eq_Inl: "bind x f = Inl e \<longleftrightarrow> x = Inl e \<or> (\<exists>v. x = Inr v \<and> f v = Inl e)"
  by (cases x) simp_all

text \<open>Each required field costs 5 points or nothing.\<close>

lemma check_fields_bounds:
  "check_fields d fs (score, m) = Inr (score', m') \<Longrightarrow>
     score - 5 * int (length fs) \<le> score' \<and> score' \<le> score"
proof (induction fs arbitrary: score m)
  case Nil
  then show ?case by simp
next
  case (Cons f fs)
  show ?case
  proof (cases "resolve d (split_dot f)")
    case (Inl e)
    with Cons.prems have "check_fields d fs (score - 5, m) = Inr (score', m')"
      by (simp split: if_splits)
    from Cons.IH[OF this] show ?thesis by simp
  next
    case (Inr v)
    with Cons.prems have
      "check_fields d fs (score, m\<lparr>data_points_collected := data_points_collected m + 1\<rparr>)
         = Inr (score', m')"
      by simp
    from Cons.IH[OF this] show ?thesis by simp
  qed
qed

lemma required_fields_length: "length (required_fields a) \<le> 3"
  by (simp add: required_fields_def)

lemma validity_check_bounds:
  "fst sm - 10 \<le> fst (validity_check r sm) \<and> fst (validity_check r sm) \<le> fst sm"
  by (simp add: validity_check_def split: sum.splits prod.splits)

lemma completeness_score_bounds:
  assumes "completeness_score r m = Inr (score, m')"
  shows "55 \<le> score \<and> score \<le> 100"
proof -
  from assms obtain incomplete s1 m1 where
    cf: "check_fields (data r) (required_fields (api r))
           (if incomplete then 100 - 20 else 100, m) = Inr (s1, m1)"
    and vc: "validity_check r (s1, m1) = (score, m')"
    by (auto simp: completeness_score_def bind_eq_Inr)
  from check_fields_bounds[OF cf] required_fields_length[of "api r"]
  have "65 \<le> s1 \<and> s1 \<le> 100" by (auto split: if_splits)
  moreover from validity_check_bounds[of "(s1, m1)" r] vc
  have "s1 - 10 \<le> score \<and> score \<le> s1" by simp
  ultimately show ?thesis by simp
qed

text \<open>The subscripts of the field loop raise nothing but KeyError and TypeError, so the loop
  always runs to its end.\<close>

lemma py_getitem_errors: "py_getitem v k = Inl e \<Longrightarrow> e = KeyError \<or> e = TypeError"
  by (cases v) (auto split: option.splits)

lemma resolve_errors: "resolve v ps = Inl e \<Longrightarrow> e = KeyError \<or> e = TypeError"
  by (induction ps arbitrary: v) (auto simp: bind_eq_Inl dest: py_getitem_errors)

lemma check_fields_total: "\<exists>sm. check_fields d fs (score, m) = Inr sm"
proof (induction fs arbitrary: score m)
  case Nil
  show ?case by simp
next
  case (Cons f fs)
  show ?case
  proof (cases "resolve d (split_dot f)")
    case (Inl e)
    with resolve_errors[OF Inl] Cons.IH[of "score - 5" m] show ?thesis by auto
  next
    case (Inr v)
    with Cons.IH show ?thesis by simp
  qed
qed

text \<open>Only the forecast check can make the assessment raise.\<close>

lemma completeness_score_total:
  "forecast_check (api r) (data r) = Inr b \<Longrightarrow> \<exists>sm. completeness_score r m = Inr sm"
  using check_fields_total[of "data r" "required_fields (api r)" "if b then 100 - 20 else 100" m]
  by (auto simp: completeness_score_def)

lemma forecast_check_no_sections: "\<exists>b. forecast_check a (JObj []) = Inr b"
  by (auto simp: forecast_check_def forecast_incomplete_def)

lemma assess_result:
  "assess_and_log_quality r m = (Inr r', m') \<longleftrightarrow>
     (\<exists>score m1. completeness_score r m = Inr (score, m1)
        \<and> r' = r\<lparr>quality_score := Some (max 0 score)\<rparr>
        \<and> m' = m1\<lparr>total_quality_score := total_quality_score m1 + max 0 score\<rparr>)"
  by (auto simp: assess_and_log_quality_def split: sum.splits)

text \<open>
  Claim C6. For every input payload, the quality score that the assessment attaches is an
  integer between 0 and 100, and a payload whose sections are all missing does get a score.
  (The assessment attaches no score only when its forecast check raises.)
\<close>

theorem quality_score_in_range:
  "(assess_and_log_quality r m = (Inr r', m') \<longrightarrow>
      (\<exists>q. quality_score r' = Some q \<and> 0 \<le> q \<and> q \<le> 100))
   \<and> (data r = JObj [] \<longrightarrow> (\<exists>r'' m''. assess_and_log_quality r m = (Inr r'', m'')))"
proof (intro conjI impI)
  assume "assess_and_log_quality r m = (Inr r', m')"
  then obtain score m1 where cs: "completeness_score r m = Inr (score, m1)"
    and r': "r' = r\<lparr>quality_score := Some (max 0 score)\<rparr>"
    by (auto simp: assess_result)
  from completeness_score_bounds[OF cs] r'
  show "\<exists>q. quality_score r' = Some q \<and> 0 \<le> q \<and> q \<le> 100" by simp
next
  assume "data r = JObj []"
  with forecast_check_no_sections[of "api r"] completeness_score_total[of r _ m]
  obtain sm where "completeness_score r m = Inr sm" by auto
  then show "\<exists>r'' m''. assess_and_log_quality r m = (Inr r'', m'')"
    by (cases sm) (simp add: assess_and_log_quality_def)
qed

theorem quality_score_in_range_witness:
  "\<exists>r' m'. assess_and_log_quality
        \<lparr>api = ''OpenWeatherMap'', city = ''Oslo'', data = JObj [], quality_score = None\<rparr>
        \<lparr>total_requests = 2, successful_requests = 1, failures = 0, data_points_collected = 0,
         owm_success = 1, wapi_success = 0, total_quality_score = 0, issues = []\<rparr> = (Inr r', m')
      \<and> (\<exists>q. quality_score r' = Some q \<and> 0 \<le> q \<and> q \<le> 100)"
proof -
  let ?r = "\<lparr>api = ''OpenWeatherMap'', city = ''Oslo'', data = JObj [], quality_score = None\<rparr>"
  let ?m = "\<lparr>total_requests = 2, successful_requests = 1, failures = 0,
             data_points_collected = 0, owm_success = 1, wapi_success = 0,
             total_quality_score = 0, issues = []\<rparr>"
  have "data ?r = JObj []" by simp
  with quality_score_in_range[of ?r ?m] obtain r'' m''
    where a: "assess_and_log_quality ?r ?m = (Inr r'', m'')" by blast
  with quality_score_in_range[of ?r ?m r'' m''] show ?thesis by blast
qed

text \<open>
  Claim C9. For every input payload the assessment deducts at most 45 points, so the score
  it attaches is at least 55, the clamp \<^verbatim>\<open>max(0, completeness_score)\<close> leaves the value as
  it is, and the assessment never produces the score 0.
\<close>

theorem assessment_deducts_at_most_45:
  assumes "assess_and_log_quality r m = (Inr r', m')"
  shows "\<exists>score m1. completeness_score r m = Inr (score, m1)
           \<and> 0 \<le> 100 - score \<and> 100 - score \<le> 45
           \<and> max 0 score = score
           \<and> quality_score r' = Some score \<and> 55 \<le> score \<and> score \<noteq> 0"
proof -
  from assms obtain score m1 where cs: "completeness_score r m = Inr (score, m1)"
    and r': "r' = r\<lparr>quality_score := Some (max 0 score)\<rparr>"
    by (auto simp: assess_result)
  from completeness_score_bounds[OF cs] have "55 \<le> score" "score \<le> 100" by simp_all
  with cs r' show ?thesis by (intro exI[of _ score] exI[of _ m1]) simp
qed

lemmas assess_defs =
  assess_and_log_quality_def completeness_score_def forecast_check_def forecast_incomplete_def
  required_fields_def validity_check_def temp_lookup_def suspect_def

theorem assessment_deducts_at_most_45_witness:
  "assess_and_log_quality
     \<lparr>api = ''WeatherAPI'', city = ''Lima'',
      data = JObj [(''current'', JObj [(''temp_c'', JFloat 55), (''humidity'', JInt 40)])],
      quality_score = None\<rparr>
     \<lparr>total_requests = 1, successful_requests = 1, failures = 0, data_points_collected = 0,
      owm_success = 0, wapi_success = 1, total_quality_score = 0, issues = []\<rparr>
   = (Inr \<lparr>api = ''WeatherAPI'', city = ''Lima'',
           data = JObj [(''current'', JObj [(''temp_c'', JFloat 55), (''humidity'', JInt 40)])],
           quality_score = Some 65\<rparr>,
      \<lparr>total_requests = 1, successful_requests = 1, failures = 0, data_points_collected = 2,
       owm_success = 0, wapi_success = 1, total_quality_score = 65,
       issues = [SuspectTemp ''Lima'' ''WeatherAPI'' (JFloat 55)]\<rparr>)
   \<and> (\<exists>score m1. completeness_score
          \<lparr>api = ''WeatherAPI'', city = ''Lima'',
           data = JObj [(''current'', JObj [(''temp_c'', JFloat 55), (''humidity'', JInt 40)])],
           quality_score = None\<rparr>
          \<lparr>total_requests = 1, successful_requests = 1, failures = 0, data_points_collected = 0,
           owm_success = 0, wapi_success = 1, total_quality_score = 0, issues = []\<rparr>
            = Inr (score, m1)
         \<and> 0 \<le> 100 - score \<and> 100 - score \<le> 45 \<and> max 0 score = score \<and> 55 \<le> score \<and> score \<noteq> 0)"
proof -
  let ?r = "\<lparr>api = ''WeatherAPI'', city = ''Lima'',
      data = JObj [(''current'', JObj [(''temp_c'', JFloat 55), (''humidity'', JInt 40)])],
      quality_score = None\<rparr>"
  let ?m = "\<lparr>total_requests = 1, successful_requests = 1, failures = 0, data_points_collected = 0,
      owm_success = 0, wapi_success = 1, total_quality_score = 0, issues = []\<rparr>"
  have run: "assess_and_log_quality ?r ?m
   = (Inr \<lparr>api = ''WeatherAPI'', city = ''Lima'',
           data = JObj [(''current'', JObj [(''temp_c'', JFloat 55), (''humidity'', JInt 40)])],
           quality_score = Some 65\<rparr>,
      \<lparr>total_requests = 1, successful_requests = 1, failures = 0, data_points_collected = 2,
       owm_success = 0, wapi_success = 1, total_quality_score = 65,
       issues = [SuspectTemp ''Lima'' ''WeatherAPI'' (JFloat 55)]\<rparr>)"
    by (simp add: assess_defs)
  from assessment_deducts_at_most_45[OF run] run show ?thesis by blast
qed

section \<open>Properties of the standardization\<close>

text \<open>The field mapping never touches the score set in the dict literal.\<close>

lemma standardize_owm_score:
  "p_quality_score (snd (standardize_owm d p)) = p_quality_score p"
  by (simp add: standardize_owm_def Let_def split: sum.splits)

lemma standardize_wapi_score:
  "p_quality_score (snd (standardize_wapi d p)) = p_quality_score p"
  by (auto simp: standardize_wapi_def Let_def bind_eq_Inr split: sum.splits if_splits)

lemma standardize_score:
  "p_quality_score (snd (standardize r p)) = p_quality_score p"
  by (simp add: standardize_def standardize_owm_score standardize_wapi_score)

lemma process_raw_data_returns:
  "process_raw_data ts r =
     Inr (case fst (standardize r (blank_record ts r)) of
            None \<Rightarrow> snd (standardize r (blank_record ts r))
          | Some e \<Rightarrow> (snd (standardize r (blank_record ts r)))\<lparr>p_quality_score := JInt 0\<rparr>)"
  by (simp add: process_raw_data_def split: prod.splits option.splits)

text \<open>Reading an empty section: only the empty dict has \<^verbatim>\<open>.get\<close>, and none is true.\<close>

lemma empty_section_get:
  "empty_section v \<Longrightarrow> py_get v k d = (if v = JObj [] then Inr d else Inl AttributeError)"
  by (cases v) auto

lemma empty_section_default:
  "list_all (\<lambda>kv. empty_section (snd kv)) kvs \<Longrightarrow>
     empty_section (case map_of kvs k of None \<Rightarrow> JObj [] | Some v \<Rightarrow> v)"
  by (induction kvs) auto

lemma not_a_dict_iff:
  "not_a_dict (JObj kvs) k \<longleftrightarrow> (case map_of kvs k of None \<Rightarrow> JObj [] | Some v \<Rightarrow> v) \<noteq> JObj []"
  by (simp add: not_a_dict_def split: option.splits)

lemma standardize_owm_empty:
  assumes "sections_empty d"
  shows "standardize_owm d p =
           (if not_a_dict d ''current'' then (Some AttributeError, p)
            else if not_a_dict d ''forecast''
            then (Some AttributeError,
                  p\<lparr>current_temp_c := JNull, current_humidity_p := JNull,
                    current_wind_speed_m_s := JNull\<rparr>)
            else (None, p\<lparr>current_temp_c := JNull, current_humidity_p := JNull,
                          current_wind_speed_m_s := JNull\<rparr>))"
proof -
  from assms obtain kvs where d: "d = JObj kvs"
    and e: "list_all (\<lambda>kv. empty_section (snd kv)) kvs"
    by (cases d) auto
  let ?c = "case map_of kvs ''current'' of None \<Rightarrow> JObj [] | Some v \<Rightarrow> v"
  let ?f = "case map_of kvs ''forecast'' of None \<Rightarrow> JObj [] | Some v \<Rightarrow> v"
  have c: "py_get ?c k x = (if ?c = JObj [] then Inr x else Inl AttributeError)" for k x
    by (rule empty_section_get) (rule empty_section_default[OF e])
  have f: "py_get ?f k x = (if ?f = JObj [] then Inr x else Inl AttributeError)" for k x
    by (rule empty_section_get) (rule empty_section_default[OF e])
  show ?thesis
    unfolding d not_a_dict_iff
    by (simp add: standardize_owm_def c f)
qed

lemma standardize_wapi_empty:
  assumes "sections_empty d"
  shows "standardize_wapi d p =
           (if not_a_dict d ''current'' then (Some AttributeError, p)
            else if not_a_dict d ''forecast''
            then (Some AttributeError, p\<lparr>current_temp_c := JNull, current_humidity_p := JNull\<rparr>)
            else (None, p\<lparr>current_temp_c := JNull, current_humidity_p := JNull\<rparr>))"
proof -
  from assms obtain kvs where d: "d = JObj kvs"
    and e: "list_all (\<lambda>kv. empty_section (snd kv)) kvs"
    by (cases d) auto
  let ?c = "case map_of kvs ''current'' of None \<Rightarrow> JObj [] | Some v \<Rightarrow> v"
  let ?f = "case map_of kvs ''forecast'' of None \<Rightarrow> JObj [] | Some v \<Rightarrow> v"
  have c: "py_get ?c k x = (if ?c = JObj [] then Inr x else Inl AttributeError)" for k x
    by (rule empty_section_get) (rule empty_section_default[OF e])
  have f: "py_get ?f k x = (if ?f = JObj [] then Inr x else Inl AttributeError)" for k x
    by (rule empty_section_get) (rule empty_section_default[OF e])
  show ?thesis
    unfolding d not_a_dict_iff
    by (simp add: standardize_wapi_def c f)
qed

text \<open>On a payload whose sections are all empty, the field mapping raises exactly when it
  reads a section that is not a dict, and it sets no optional field.\<close>

lemma standardize_empty:
  assumes "sections_empty (data r)"
  shows "fst (standardize r (blank_record ts r)) \<noteq> None \<longleftrightarrow>
           (api r = ''OpenWeatherMap'' \<or> api r = ''WeatherAPI'')
           \<and> (not_a_dict (data r) ''current'' \<or> not_a_dict (data r) ''forecast'')"
    and "snd (standardize r (blank_record ts r)) = blank_record ts r"
  using assms
  by (auto simp: standardize_def standardize_owm_empty standardize_wapi_empty blank_record_def)

text \<open>
  Claim C2, as amended. The normalization never raises to its caller. It forces the quality
  score to 0 exactly when the field mapping raised, and otherwise keeps the score attached
  before (\<^verbatim>\<open>'N/A'\<close> if none was). For a payload whose data sections are all empty, every
  optional field of the canonical record is unset; the score is forced to 0 when the section
  \<^verbatim>\<open>current\<close> or \<^verbatim>\<open>forecast\<close> of a known source is there and is not a dict (\<^verbatim>\<open>[]\<close>,
  \<^verbatim>\<open>''\<close> or \<^verbatim>\<open>null\<close>), and is the score attached before when these sections are missing
  or \<^verbatim>\<open>{}\<close>.
\<close>

theorem normalizer_never_raises:
  "(\<exists>p. process_raw_data ts r = Inr p
        \<and> p_quality_score p =
            (case fst (standardize r (blank_record ts r)) of
               None \<Rightarrow> (case quality_score r of None \<Rightarrow> JStr ''N/A'' | Some q \<Rightarrow> JInt q)
             | Some e \<Rightarrow> JInt 0))
   \<and> (sections_empty (data r) \<longrightarrow>
        (\<exists>p. process_raw_data ts r = Inr p
           \<and> current_temp_c p = JNull \<and> current_humidity_p p = JNull
           \<and> current_wind_speed_m_s p = JNull \<and> forecast_summary p = None
           \<and> p_quality_score p =
               (if (api r = ''OpenWeatherMap'' \<or> api r = ''WeatherAPI'')
                   \<and> (not_a_dict (data r) ''current'' \<or> not_a_dict (data r) ''forecast'')
                then JInt 0
                else (case quality_score r of None \<Rightarrow> JStr ''N/A'' | Some q \<Rightarrow> JInt q))))"
proof (intro conjI impI)
  let ?s = "standardize r (blank_record ts r)"
  have sc: "p_quality_score (snd ?s)
              = (case quality_score r of None \<Rightarrow> JStr ''N/A'' | Some q \<Rightarrow> JInt q)"
    using standardize_score[of r "blank_record ts r"] by (simp add: blank_record_def)
  show "\<exists>p. process_raw_data ts r = Inr p
        \<and> p_quality_score p =
            (case fst ?s of
               None \<Rightarrow> (case quality_score r of None \<Rightarrow> JStr ''N/A'' | Some q \<Rightarrow> JInt q)
             | Some e \<Rightarrow> JInt 0)"
    using sc by (cases "fst ?s") (simp_all add: process_raw_data_returns)
  assume e: "sections_empty (data r)"
  note se = standardize_empty[OF e, of ts]
  show "\<exists>p. process_raw_data ts r = Inr p
           \<and> current_temp_c p = JNull \<and> current_humidity_p p = JNull
           \<and> current_wind_speed_m_s p = JNull \<and> forecast_summary p = None
           \<and> p_quality_score p =
               (if (api r = ''OpenWeatherMap'' \<or> api r = ''WeatherAPI'')
                   \<and> (not_a_dict (data r) ''current'' \<or> not_a_dict (data r) ''forecast'')
                then JInt 0
                else (case quality_score r of None \<Rightarrow> JStr ''N/A'' | Some q \<Rightarrow> JInt q))"
  proof (cases "fst ?s")
    case None
    with se(1) have cond: "\<not> ((api r = ''OpenWeatherMap'' \<or> api r = ''WeatherAPI'')
        \<and> (not_a_dict (data r) ''current'' \<or> not_a_dict (data r) ''forecast''))"
      by simp
    from None se(2) have "process_raw_data ts r = Inr (blank_record ts r)"
      by (simp add: process_raw_data_returns)
    with cond show ?thesis by (auto simp: blank_record_def)
  next
    case (Some err)
    with se(1) have cond: "(api r = ''OpenWeatherMap'' \<or> api r = ''WeatherAPI'')
        \<and> (not_a_dict (data r) ''current'' \<or> not_a_dict (data r) ''forecast'')"
      by simp
    from Some se(2)
    have "process_raw_data ts r = Inr ((blank_record ts r)\<lparr>p_quality_score := JInt 0\<rparr>)"
      by (simp add: process_raw_data_returns)
    with cond show ?thesis by (auto simp: blank_record_def)
  qed
qed

lemmas process_defs =
  process_raw_data_def blank_record_def standardize_def standardize_owm_def
  standardize_wapi_def

theorem normalizer_never_raises_witness:
  "sections_empty (JObj [(''current'', JObj []), (''forecast'', JObj [])])
   \<and> (\<exists>p. process_raw_data ''20240101_120000''
             \<lparr>api = ''OpenWeatherMap'', city = ''Oslo'',
              data = JObj [(''current'', JObj []), (''forecast'', JObj [])],
              quality_score = Some 65\<rparr> = Inr p
          \<and> current_temp_c p = JNull \<and> current_humidity_p p = JNull
          \<and> current_wind_speed_m_s p = JNull \<and> forecast_summary p = None
          \<and> p_quality_score p = JInt 65)
   \<and> sections_empty (JObj [(''current'', JObj []), (''forecast'', JArr [])])
   \<and> (\<exists>p. process_raw_data ''20240101_120000''
             \<lparr>api = ''OpenWeatherMap'', city = ''Oslo'',
              data = JObj [(''current'', JObj []), (''forecast'', JArr [])],
              quality_score = Some 65\<rparr> = Inr p
          \<and> current_temp_c p = JNull \<and> current_humidity_p p = JNull
          \<and> current_wind_speed_m_s p = JNull \<and> forecast_summary p = None
          \<and> p_quality_score p = JInt 0)"
proof -
  let ?a = "\<lparr>api = ''OpenWeatherMap'', city = ''Oslo'',
             data = JObj [(''current'', JObj []), (''forecast'', JObj [])],
             quality_score = Some 65\<rparr>"
  let ?b = "\<lparr>api = ''OpenWeatherMap'', city = ''Oslo'',
             data = JObj [(''current'', JObj []), (''forecast'', JArr [])],
             quality_score = Some 65\<rparr>"
  have ea: "sections_empty (data ?a)" and eb: "sections_empty (data ?b)" by simp_all
  have na: "\<not> not_a_dict (data ?a) ''current''" "\<not> not_a_dict (data ?a) ''forecast''"
    and nb: "not_a_dict (data ?b) ''forecast''"
    by (simp_all add: not_a_dict_def)
  from normalizer_never_raises[of "''20240101_120000''" ?a]
       normalizer_never_raises[of "''20240101_120000''" ?b] ea eb na nb
  show ?thesis by simp
qed

text \<open>The claim as the specification words it fails: the all-empty payload of a two-endpoint
  fetch, assessed at 65, keeps its 65.\<close>

theorem normalizer_empty_sections_counterexample:
  "process_raw_data ''20240101_120000''
     \<lparr>api = ''OpenWeatherMap'', city = ''Oslo'',
      data = JObj [(''current'', JObj []), (''forecast'', JObj [])],
      quality_score = Some 65\<rparr>
   = Inr \<lparr>p_city = ''Oslo'', p_collection_timestamp = ''20240101_120000'',
          source_api = ''OpenWeatherMap'', p_quality_score = JInt 65,
          current_temp_c = JNull, current_humidity_p = JNull,
          current_wind_speed_m_s = JNull, forecast_summary = None\<rparr>
   \<and> JInt 65 \<noteq> JInt 0"
  by (simp add: process_defs)

text \<open>
  Claim C10. When no quality score was attached to the payload, the canonical record's
  \<^verbatim>\<open>quality_score\<close> is the string \<^verbatim>\<open>'N/A'\<close>, unless the field mapping raised, which
  forces it to 0.
\<close>

theorem unassessed_score_is_NA:
  assumes "quality_score r = None"
  shows "\<exists>p. process_raw_data ts r = Inr p
           \<and> p_quality_score p =
               (case fst (standardize r (blank_record ts r)) of
                  None \<Rightarrow> JStr ''N/A'' | Some e \<Rightarrow> JInt 0)"
proof (cases "fst (standardize r (blank_record ts r))")
  case None
  with assms standardize_score[of r "blank_record ts r"] show ?thesis
    by (simp add: process_raw_data_returns blank_record_def)
next
  case (Some e)
  then show ?thesis by (simp add: process_raw_data_returns)
qed

theorem unassessed_score_is_NA_witness:
  "quality_score \<lparr>api = ''WeatherAPI'', city = ''Lima'',
                  data = JObj [(''current'', JObj [(''temp_c'', JFloat 21)])],
                  quality_score = None\<rparr> = None
   \<and> (\<exists>p. process_raw_data ''20240101_120000''
             \<lparr>api = ''WeatherAPI'', city = ''Lima'',
              data = JObj [(''current'', JObj [(''temp_c'', JFloat 21)])],
              quality_score = None\<rparr> = Inr p
          \<and> p_quality_score p = JStr ''N/A'')
   \<and> quality_score \<lparr>api = ''WeatherAPI'', city = ''Lima'',
                  data = JObj [(''current'', JObj [(''wind_kph'', JStr ''calm'')])],
                  quality_score = None\<rparr> = None
   \<and> (\<exists>p. process_raw_data ''20240101_120000''
             \<lparr>api = ''WeatherAPI'', city = ''Lima'',
              data = JObj [(''current'', JObj [(''wind_kph'', JStr ''calm'')])],
              quality_score = None\<rparr> = Inr p
          \<and> p_quality_score p = JInt 0)"
proof -
  let ?a = "\<lparr>api = ''WeatherAPI'', city = ''Lima'',
             data = JObj [(''current'', JObj [(''temp_c'', JFloat 21)])],
             quality_score = None\<rparr>"
  let ?b = "\<lparr>api = ''WeatherAPI'', city = ''Lima'',
             data = JObj [(''current'', JObj [(''wind_kph'', JStr ''calm'')])],
             quality_score = None\<rparr>"
  have na: "quality_score ?a = None" and nb: "quality_score ?b = None" by simp_all
  have fa: "fst (standardize ?a (blank_record ''20240101_120000'' ?a)) = None"
    by (simp add: process_defs)
  have fb: "fst (standardize ?b (blank_record ''20240101_120000'' ?b)) = Some TypeError"
    by (simp add: process_defs)
  from unassessed_score_is_NA[OF na, of "''20240101_120000''"]
       unassessed_score_is_NA[OF nb, of "''20240101_120000''"] fa fb
  show ?thesis by simp
qed

subsection \<open>The wind speed of the kph-reporting source\<close>

lemma standardize_wapi_wind:
  assumes "map_of kvs ''current'' = Some (JObj cur)"
    and "map_of cur ''wind_kph'' = Some (JFloat x)"
  shows "current_wind_speed_m_s (snd (standardize_wapi (JObj kvs) p))
           = JFloat (py_round2 (fl (x * KPH_TO_MS)))"
  using assms
  by (simp add: standardize_wapi_def Let_def split: sum.splits)

text \<open>The literal \<^verbatim>\<open>0.277778\<close> as a binary64 number, the product \<^verbatim>\<open>36.0 * 0.277778\<close>
  (a little above 10.000008) and its rounding to two decimals.\<close>

lemma KPH_TO_MS_value: "KPH_TO_MS = 5004003589166887 / 18014398509481984"
  by code_simp

lemma product_36: "fl (36 * KPH_TO_MS) = 1407376009453187 / 140737488355328"
  unfolding KPH_TO_MS_value by code_simp

lemma round_36: "py_round2 (fl (36 * KPH_TO_MS)) = 10"
  unfolding product_36 by code_simp

text \<open>How far rounding to an integer, and rounding to binary64, can move a number.\<close>

lemma round_half_even_error: "\<bar>of_int (round_half_even t) - t\<bar> \<le> 1 / 2"
proof -
  have "of_int \<lfloor>t\<rfloor> \<le> t" "t < of_int \<lfloor>t\<rfloor> + 1" by linarith+
  then show ?thesis
    by (auto simp: round_half_even_def Let_def abs_le_iff)
qed

lemma ilog2_le:
  assumes "0 < x"
  shows "power_int 2 (ilog2 x) \<le> x"
proof -
  obtain p q where pq: "quotient_of x = (p, q)" by (cases "quotient_of x")
  then have q: "0 < q" and x: "x = of_int p / of_int q"
    using quotient_of_denom_pos quotient_of_div by blast+
  with assms have p: "0 < p" by (simp add: zero_less_divide_iff)
  let ?A = "bitlen p - 1" and ?B = "bitlen q"
  show ?thesis
  proof (cases "power_int 2 (bitlen p - bitlen q) \<le> x")
    case True
    with pq show ?thesis by (simp add: ilog2_def)
  next
    case False
    from p have A: "0 \<le> ?A" by (auto simp: bitlen_alt_def)
    have B: "0 \<le> ?B" by (rule bitlen_nonneg)
    from bitlen_bounds[OF p] have "2 ^ nat ?A \<le> p" by simp
    then have "(of_int (2 ^ nat ?A) :: rat) \<le> of_int p" by (simp only: of_int_le_iff)
    then have lp: "power_int (2::rat) ?A \<le> of_int p"
      using A by (simp add: power_int_nonneg_exp)
    from bitlen_bounds[OF q] have "q \<le> 2 ^ nat ?B" by simp
    then have "(of_int q :: rat) \<le> of_int (2 ^ nat ?B)" by (simp only: of_int_le_iff)
    then have lq: "of_int q \<le> power_int (2::rat) ?B"
      using B by (simp add: power_int_nonneg_exp)
    have "power_int (2::rat) (?A - ?B) = power_int 2 ?A / power_int 2 ?B"
      by (rule power_int_diff) simp
    also have "\<dots> \<le> of_int p / of_int q"
      using lp lq q p by (intro frac_le) simp_all
    finally have "power_int (2::rat) (?A - ?B) \<le> x" using x by simp
    moreover have "ilog2 x = ?A - ?B" using False pq by (simp add: ilog2_def)
    ultimately show ?thesis by simp
  qed
qed

lemma fl_error: "\<bar>fl z - z\<bar> \<le> \<bar>z\<bar> / 2 ^ 53"
proof (cases "z = 0")
  case True
  then show ?thesis by (simp add: fl_def)
next
  case False
  let ?e = "ilog2 \<bar>z\<bar>"
  let ?u = "power_int (2::rat) (?e - 52)"
  have u: "0 < ?u" by simp
  from False have le: "power_int 2 ?e \<le> \<bar>z\<bar>" by (intro ilog2_le) simp
  have "fl z - z = (of_int (round_half_even (z / ?u)) - z / ?u) * ?u"
    using False u by (simp add: fl_def Let_def field_simps)
  then have "\<bar>fl z - z\<bar> = \<bar>of_int (round_half_even (z / ?u)) - z / ?u\<bar> * ?u"
    using u by (simp add: abs_mult)
  also have "\<dots> \<le> 1 / 2 * ?u"
    using round_half_even_error[of "z / ?u"] u by (intro mult_right_mono) simp_all
  also have "1 / 2 * ?u = power_int 2 ?e / 2 ^ 53"
  proof -
    have "?u = power_int 2 ?e / power_int 2 52" by (rule power_int_diff) simp
    then show ?thesis by simp
  qed
  also have "\<dots> \<le> \<bar>z\<bar> / 2 ^ 53" using le by (simp add: divide_right_mono)
  finally show ?thesis .
qed

text \<open>Multiplying by the literal and rounding to two decimals, without the functions of the
  model: the result is within float precision of a number of hundredths, which is within half
  a hundredth (and the float error of the product) of \<open>x\<close> times 0.277778.\<close>

lemma kph_product_error:
  "\<bar>fl (x * KPH_TO_MS) - x * (277778 / 1000000)\<bar> \<le> \<bar>x\<bar> / 2 ^ 53"
proof -
  let ?c = "5004003589166887 / 18014398509481984 :: rat"
  let ?lit = "277778 / 1000000 :: rat"
  have c: "\<bar>?c\<bar> / 2 ^ 53 + \<bar>?c - ?lit\<bar> \<le> 1 / 2 ^ 53" by simp
  have "\<bar>fl (x * ?c) - x * ?lit\<bar> \<le> \<bar>fl (x * ?c) - x * ?c\<bar> + \<bar>x * ?c - x * ?lit\<bar>"
    by (rule abs_triangle_ineq4[of "fl (x * ?c) - x * ?c" "x * ?lit - x * ?c", simplified]
        order_trans[OF _ abs_triangle_ineq]) simp
  also have "\<dots> \<le> \<bar>x * ?c\<bar> / 2 ^ 53 + \<bar>x * ?c - x * ?lit\<bar>"
    using fl_error[of "x * ?c"] by simp
  also have "\<dots> = \<bar>x\<bar> * (\<bar>?c\<bar> / 2 ^ 53 + \<bar>?c - ?lit\<bar>)"
  proof -
    have e1: "\<bar>x * ?c\<bar> = \<bar>x\<bar> * \<bar>?c\<bar>" by (rule abs_mult)
    have "x * ?c - x * ?lit = x * (?c - ?lit)" by (rule right_diff_distrib[symmetric])
    then have e2: "\<bar>x * ?c - x * ?lit\<bar> = \<bar>x\<bar> * \<bar>?c - ?lit\<bar>" by (simp only: abs_mult)
    show ?thesis unfolding e1 e2 by (simp only: distrib_left times_divide_eq_right)
  qed
  also have "\<dots> \<le> \<bar>x\<bar> * (1 / 2 ^ 53)"
    by (rule mult_left_mono[OF c]) simp
  finally show ?thesis by (simp add: KPH_TO_MS_value)
qed

lemma py_round2_spec:
  "\<bar>of_int (round_half_even (y * 100)) / 100 - y\<bar> \<le> 1 / 200
   \<and> \<bar>py_round2 y - of_int (round_half_even (y * 100)) / 100\<bar>
        \<le> \<bar>of_int (round_half_even (y * 100)) / 100\<bar> / 2 ^ 53"
proof
  have "of_int (round_half_even (y * 100)) / 100 - y
          = (of_int (round_half_even (y * 100)) - y * 100) / 100"
    by (simp add: diff_divide_distrib)
  then have "\<bar>of_int (round_half_even (y * 100)) / 100 - y\<bar>
          = \<bar>of_int (round_half_even (y * 100)) - y * 100\<bar> / 100"
    by (simp only: abs_divide)
  also have "\<dots> \<le> (1 / 2) / 100"
    using round_half_even_error[of "y * 100"] by (intro divide_right_mono) simp_all
  finally show "\<bar>of_int (round_half_even (y * 100)) / 100 - y\<bar> \<le> 1 / 200" by simp
  show "\<bar>py_round2 y - of_int (round_half_even (y * 100)) / 100\<bar>
          \<le> \<bar>of_int (round_half_even (y * 100)) / 100\<bar> / 2 ^ 53"
    unfolding py_round2_def by (rule fl_error)
qed

text \<open>
  Claim C8. For the kph-reporting source (WeatherAPI) the canonical wind speed is the reported
  speed multiplied by 0.277778 and rounded to 2 decimals: it is, to float precision, a number
  of hundredths \<open>n / 100\<close>, and that number is within half a hundredth of the reported speed
  times 0.277778 (up to the float error of the product). A reported 36.0 kph gives exactly
  10.0 m/s.
\<close>

theorem wind_speed_conversion:
  assumes "api r = ''WeatherAPI''"
    and "data r = JObj kvs"
    and "map_of kvs ''current'' = Some (JObj cur)"
    and "map_of cur ''wind_kph'' = Some (JFloat x)"
  shows "\<exists>p w n. process_raw_data ts r = Inr p
           \<and> current_wind_speed_m_s p = JFloat w
           \<and> \<bar>of_int n / 100 - x * (277778 / 1000000)\<bar> \<le> 1 / 200 + \<bar>x\<bar> / 2 ^ 53
           \<and> \<bar>w - of_int n / 100\<bar> \<le> \<bar>of_int n / 100\<bar> / 2 ^ 53
           \<and> w = py_round2 (fl (x * KPH_TO_MS))
           \<and> (x = 36 \<longrightarrow> w = 10)"
proof -
  let ?s = "standardize r (blank_record ts r)"
  let ?y = "fl (x * KPH_TO_MS)"
  let ?n = "round_half_even (?y * 100)"
  let ?w = "py_round2 ?y"
  from assms have "current_wind_speed_m_s (snd ?s) = JFloat ?w"
    by (simp add: standardize_def standardize_wapi_wind)
  then have p: "\<exists>p. process_raw_data ts r = Inr p \<and> current_wind_speed_m_s p = JFloat ?w"
    by (cases "fst ?s") (simp_all add: process_raw_data_returns)
  have "\<bar>of_int ?n / 100 - x * (277778 / 1000000)\<bar>
          \<le> \<bar>of_int ?n / 100 - ?y\<bar> + \<bar>?y - x * (277778 / 1000000)\<bar>"
    by simp
  also have "\<dots> \<le> 1 / 200 + \<bar>x\<bar> / 2 ^ 53"
    using py_round2_spec[of ?y] kph_product_error[of x] by (intro add_mono) simp_all
  finally have a: "\<bar>of_int ?n / 100 - x * (277778 / 1000000)\<bar> \<le> 1 / 200 + \<bar>x\<bar> / 2 ^ 53" .
  have b: "\<bar>?w - of_int ?n / 100\<bar> \<le> \<bar>of_int ?n / 100\<bar> / 2 ^ 53"
    using py_round2_spec[of ?y] by simp
  have c: "x = 36 \<longrightarrow> ?w = 10" by (simp add: round_36)
  from p a b c show ?thesis by blast
qed

theorem wind_speed_conversion_witness:
  "process_raw_data ''20240101_120000''
     \<lparr>api = ''WeatherAPI'', city = ''Lima'',
      data = JObj [(''current'', JObj [(''temp_c'', JFloat 21), (''wind_kph'', JFloat 36)])],
      quality_score = Some 75\<rparr>
   = Inr \<lparr>p_city = ''Lima'', p_collection_timestamp = ''20240101_120000'',
          source_api = ''WeatherAPI'', p_quality_score = JInt 75,
          current_temp_c = JFloat 21, current_humidity_p = JNull,
          current_wind_speed_m_s = JFloat 10, forecast_summary = None\<rparr>"
proof -
  let ?cur = "[(''temp_c'', JFloat 21), (''wind_kph'', JFloat 36)]"
  let ?kvs = "[(''current'', JObj ?cur)]"
  let ?r = "\<lparr>api = ''WeatherAPI'', city = ''Lima'', data = JObj ?kvs,
             quality_score = Some 75\<rparr>"
  have h: "api ?r = ''WeatherAPI''" "data ?r = JObj ?kvs"
    "map_of ?kvs ''current'' = Some (JObj ?cur)" "map_of ?cur ''wind_kph'' = Some (JFloat 36)"
    by simp_all
  from wind_speed_conversion[OF h, of "''20240101_120000''"]
  obtain p where p: "process_raw_data ''20240101_120000'' ?r = Inr p"
    and w: "current_wind_speed_m_s p = JFloat 10" by auto
  have "process_raw_data ''20240101_120000'' ?r
      = Inr \<lparr>p_city = ''Lima'', p_collection_timestamp = ''20240101_120000'',
          source_api = ''WeatherAPI'', p_quality_score = JInt 75,
          current_temp_c = JFloat 21, current_humidity_p = JNull,
          current_wind_speed_m_s = JFloat (py_round2 (fl (36 * KPH_TO_MS))),
          forecast_summary = None\<rparr>"
    by (simp add: process_defs)
  with p w show ?thesis by auto
qed

section \<open>Properties of the fetches\<close>

lemma kept_refl [simp]: "kept s s"
  by (simp add: kept_def)

lemma kept_trans: "kept s s1 \<Longrightarrow> kept s1 s2 \<Longrightarrow> kept s s2"
  by (simp add: kept_def)

lemma frame_refl [simp]: "frame s s"
  by (simp add: frame_def)

lemma frame_trans:
  assumes "frame s s1" and "frame s1 s2"
  shows "frame s s2"
proof -
  from assms(1) obtain n1 where n1: "trace s1 = trace s @ n1" "filter is_retry_event n1 = []"
    by (auto simp: frame_def)
  from assms(2) obtain n2 where n2: "trace s2 = trace s1 @ n2" "filter is_retry_event n2 = []"
    by (auto simp: frame_def)
  from n1 n2 have "trace s2 = trace s @ (n1 @ n2) \<and> filter is_retry_event (n1 @ n2) = []"
    by simp
  then have "\<exists>new. trace s2 = trace s @ new \<and> filter is_retry_event new = []" by blast
  with assms show ?thesis by (simp add: frame_def kept_def)
qed

lemma frame_emit_Get [simp]: "frame s (emit (Get u) s)"
  by (simp add: frame_def kept_def emit_def)

lemma frame_emit_Sleep [simp]: "frame s (emit (Sleep d) s)"
  by (simp add: frame_def kept_def emit_def)

lemma frame_bump_requests [simp]:
  "frame s (bump total_requests_update s)"
  "frame s (bump owm_success_update s)"
  "frame s (bump wapi_success_update s)"
  by (simp_all add: frame_def kept_def bump_def)

lemma kept_bump_successful [simp]: "kept s (bump successful_requests_update s)"
  by (simp add: kept_def bump_def)

lemma successful_bump [simp]:
  "successful_requests (summary_metrics (bump successful_requests_update s))
     = successful_requests (summary_metrics s) + 1"
  by (simp add: bump_def)

lemma trace_bump [simp]: "trace (bump f s) = trace s"
  by (simp add: bump_def)

lemma trace_emit [simp]: "trace (emit ev s) = trace s @ [ev]"
  by (simp add: emit_def)

text \<open>The two-endpoint fetch, by the outcomes of its two calls.\<close>

lemma trace_after_call [simp]:
  "trace (if c then bump f (emit ev s) else emit ev s) = trace s @ [ev]"
  by simp

lemma legal_sleep_step [simp]:
  "legal_sleep d \<Longrightarrow> time_sleep site d s = (Inr (), emit (site (seconds d)) s)"
  by (simp add: legal_sleep_def time_sleep_def)

lemma illegal_sleep_step:
  "\<not> legal_sleep d \<Longrightarrow> \<exists>e. time_sleep site d s = (Inl e, s)"
  by (auto simp: legal_sleep_def time_sleep_def)

lemma fetch_owm_data_result:
  assumes "legal_sleep (RESPECTFUL_DELAY_SECONDS cfg)"
    and "owm_urls cfg cty = [(''current'', u1), (''forecast'', u2)]"
    and "nt (trace s) u1 = o1"
    and "nt (trace s @ [Get u1, Sleep (seconds (RESPECTFUL_DELAY_SECONDS cfg))]) u2 = o2"
  shows "fst (fetch_owm_data cfg nt cty s) =
           Inr (if succeeded o1 \<or> succeeded o2
                then Some \<lparr>api = ''OpenWeatherMap'', city = cty,
                           data = JObj ((case o1 of HttpResponse st (Some j) \<Rightarrow>
                                           if st = 200 then [(''current'', j)] else [] | _ \<Rightarrow> [])
                                      @ (case o2 of HttpResponse st (Some j) \<Rightarrow>
                                           if st = 200 then [(''forecast'', j)] else [] | _ \<Rightarrow> [])),
                           quality_score = None\<rparr>
                else None)"
  using assms
  by (cases o1; cases o2)
     (auto simp: fetch_owm_data_def requests_get_def Let_def split: option.splits)

text \<open>With a length that \<^verbatim>\<open>time.sleep\<close> refuses, the two-endpoint fetch raises after its
  first call.\<close>

lemma fetch_owm_data_raises:
  assumes "\<not> legal_sleep (RESPECTFUL_DELAY_SECONDS cfg)"
  shows "\<exists>e. fst (fetch_owm_data cfg nt cty s) = Inl e"
proof -
  let ?s2 = "emit (Get (snd (hd (owm_urls cfg cty)))) (bump total_requests_update s)"
  have "\<exists>e. time_sleep Sleep (RESPECTFUL_DELAY_SECONDS cfg) s3 = (Inl e, s3)" for s3
    using assms by (rule illegal_sleep_step)
  then obtain e1 e2 where
    "time_sleep Sleep (RESPECTFUL_DELAY_SECONDS cfg) ?s2 = (Inl e1, ?s2)"
    "time_sleep Sleep (RESPECTFUL_DELAY_SECONDS cfg) (bump owm_success_update ?s2)
       = (Inl e2, bump owm_success_update ?s2)"
    by metis
  then show ?thesis
    by (cases "nt (trace s) (snd (hd (owm_urls cfg cty)))")
       (auto simp: fetch_owm_data_def owm_urls_def requests_get_def Let_def
             split: option.splits)
qed

lemma fetch_wapi_data_result:
  "fst (fetch_wapi_data cfg nt cty s) =
     Inr (case nt (trace s) (wapi_url cfg cty) of
            HttpResponse st (Some j) \<Rightarrow>
              if st = 200
              then Some \<lparr>api = ''WeatherAPI'', city = cty, data = j, quality_score = None\<rparr>
              else None
          | _ \<Rightarrow> None)"
  by (simp add: fetch_wapi_data_def requests_get_def Let_def
           split: http_outcome.splits option.splits)

text \<open>With only the \<^verbatim>\<open>current\<close> section, the forecast check of the two-endpoint source
  finds the forecast incomplete; the rest of the assessment is the field loop and the
  validity check on the body of \<^verbatim>\<open>current\<close>.\<close>

lemma forecast_check_current_only:
  "forecast_check ''OpenWeatherMap'' (JObj [(''current'', j)]) = Inr True"
  by (simp add: forecast_check_def forecast_incomplete_def)

lemma resolve_field_at:
  "resolve v ps = Inr x \<longleftrightarrow> field_at v ps = Some x"
proof (induction ps arbitrary: v)
  case Nil
  show ?case by auto
next
  case (Cons k ks)
  show ?case
  proof (cases v)
    case (JObj kvs)
    with Cons.IH show ?thesis by (cases "map_of kvs k") simp_all
  qed simp_all
qed

lemma resolve_missing: "(\<exists>e. resolve v ps = Inl e) \<longleftrightarrow> field_at v ps = None"
proof (cases "resolve v ps")
  case (Inl e)
  have "field_at v ps \<noteq> Some x" for x
    using resolve_field_at[of v ps x] Inl by simp
  then have "field_at v ps = None" by (cases "field_at v ps") blast+
  with Inl show ?thesis by simp
next
  case (Inr x)
  then have "field_at v ps = Some x" by (simp add: resolve_field_at)
  with Inr show ?thesis by simp
qed

text \<open>The field loop takes 5 points for each field that does not resolve.\<close>

lemma check_fields_count:
  "check_fields d fs (score, m) = Inr (score', m') \<Longrightarrow>
     score' = score - 5 * int (length (filter (\<lambda>f. field_at d (split_dot f) = None) fs))"
proof (induction fs arbitrary: score m)
  case Nil
  then show ?case by simp
next
  case (Cons f fs)
  show ?case
  proof (cases "resolve d (split_dot f)")
    case (Inl e)
    then have n: "field_at d (split_dot f) = None" using resolve_missing by blast
    from Inl Cons.prems have "check_fields d fs (score - 5, m) = Inr (score', m')"
      by (simp split: if_splits)
    from Cons.IH[OF this] n show ?thesis by simp
  next
    case (Inr v)
    then have n: "field_at d (split_dot f) \<noteq> None" using resolve_field_at by simp
    from Inr Cons.prems have
      "check_fields d fs (score, m\<lparr>data_points_collected := data_points_collected m + 1\<rparr>)
         = Inr (score', m')"
      by simp
    from Cons.IH[OF this] n show ?thesis by simp
  qed
qed

lemma current_paths_count:
  "length (filter (\<lambda>f. field_at (JObj [(''current'', j)]) (split_dot f) = None)
             (required_fields ''OpenWeatherMap''))
     = length (filter (\<lambda>path. field_at j path = None) current_paths)"
  by (simp add: required_fields_def current_paths_def)

lemma validity_check_current_only:
  "fst (validity_check \<lparr>api = ''OpenWeatherMap'', city = cty, data = JObj [(''current'', j)],
                         quality_score = q\<rparr> (score, m))
     = score - (if out_of_range (field_at j [''main'', ''temp'']) then 10 else 0)"
proof (cases j)
  case (JObj kvs)
  show ?thesis
  proof (cases "map_of kvs ''main''")
    case None
    with JObj show ?thesis by (simp add: validity_check_def temp_lookup_def suspect_def)
  next
    case (Some mn)
    show ?thesis
    proof (cases mn)
      case mo: (JObj mkvs)
      show ?thesis
      proof (cases "map_of mkvs ''temp''")
        case None
        with JObj Some mo show ?thesis
          by (simp add: validity_check_def temp_lookup_def suspect_def)
      next
        case t: (Some t)
        with JObj Some mo show ?thesis
          by (cases t) (auto simp: validity_check_def temp_lookup_def suspect_def)
      qed
    qed (use JObj Some in \<open>simp_all add: validity_check_def temp_lookup_def suspect_def\<close>)
  qed
qed (simp_all add: validity_check_def temp_lookup_def suspect_def)

text \<open>The assessment of a payload that holds the section \<^verbatim>\<open>current\<close> alone.\<close>

lemma assess_current_only:
  "fst (assess_and_log_quality
          \<lparr>api = ''OpenWeatherMap'', city = cty, data = JObj [(''current'', j)],
           quality_score = None\<rparr> m)
     = Inr \<lparr>api = ''OpenWeatherMap'', city = cty, data = JObj [(''current'', j)],
            quality_score = Some (current_only_score j)\<rparr>"
proof -
  let ?r = "\<lparr>api = ''OpenWeatherMap'', city = cty, data = JObj [(''current'', j)],
             quality_score = None\<rparr>"
  obtain s1 m1 where cf:
    "check_fields (data ?r) (required_fields (api ?r)) (100 - 20, m) = Inr (s1, m1)"
    using check_fields_total by (metis surj_pair)
  from check_fields_count[OF cf]
  have s1: "s1 = 100 - 20 - 5 * int (length (filter (\<lambda>path. field_at j path = None) current_paths))"
    by (simp add: current_paths_count)
  obtain s2 m2 where vc: "validity_check ?r (s1, m1) = (s2, m2)"
    by (cases "validity_check ?r (s1, m1)")
  with validity_check_current_only[of cty j None s1 m1] s1
  have s2: "s2 = current_only_score j" by (simp add: current_only_score_def)
  from cf vc have cs: "completeness_score ?r m = Inr (s2, m2)"
    by (simp add: completeness_score_def forecast_check_current_only)
  from completeness_score_bounds[OF cs] have "max 0 s2 = s2" by simp
  with cs s2 show ?thesis by (simp add: assess_and_log_quality_def)
qed

text \<open>
  Claim C5. A fetch returns \<^verbatim>\<open>None\<close> exactly when every endpoint call of its source failed
  (the respectful delay being a length that \<^verbatim>\<open>time.sleep\<close> accepts). When the two-endpoint
  source gets status 200 for \<^verbatim>\<open>current\<close> and another status for \<^verbatim>\<open>forecast\<close>, the
  payload holds the section \<^verbatim>\<open>current\<close> alone, the fetch returns it (an overall success), and
  the assessment attaches to it the score of the specification with the 20 points of the
  forecast deducted: 100 - 20, less what the body of \<^verbatim>\<open>current\<close> itself loses.
\<close>

theorem partial_fetch_success:
  assumes "legal_sleep (RESPECTFUL_DELAY_SECONDS cfg)"
    and "owm_urls cfg cty = [(''current'', u1), (''forecast'', u2)]"
    and "nt (trace s) u1 = o1"
    and "nt (trace s @ [Get u1, Sleep (seconds (RESPECTFUL_DELAY_SECONDS cfg))]) u2 = o2"
    and "nt (trace s) (wapi_url cfg cty) = ow"
  shows "(fst (fetch_owm_data cfg nt cty s) = Inr None \<longleftrightarrow> \<not> succeeded o1 \<and> \<not> succeeded o2)
     \<and> (fst (fetch_wapi_data cfg nt cty s) = Inr None \<longleftrightarrow> \<not> succeeded ow)
     \<and> (o1 = HttpResponse 200 (Some j) \<and> o2 = HttpResponse status b \<and> status \<noteq> 200 \<longrightarrow>
          (let r = \<lparr>api = ''OpenWeatherMap'', city = cty, data = JObj [(''current'', j)],
                    quality_score = None\<rparr>
           in fst (fetch_owm_data cfg nt cty s) = Inr (Some r)
              \<and> fst (assess_and_log_quality r m)
                  = Inr (r\<lparr>quality_score := Some (current_only_score j)\<rparr>)))"
proof (intro conjI impI)
  note owm = fetch_owm_data_result[OF assms(1-4)]
  show "fst (fetch_owm_data cfg nt cty s) = Inr None \<longleftrightarrow> \<not> succeeded o1 \<and> \<not> succeeded o2"
    unfolding owm by simp
  show "fst (fetch_wapi_data cfg nt cty s) = Inr None \<longleftrightarrow> \<not> succeeded ow"
    unfolding fetch_wapi_data_result assms(5)
    by (cases ow) (simp_all split: option.splits)
  assume partial: "o1 = HttpResponse 200 (Some j) \<and> o2 = HttpResponse status b \<and> status \<noteq> 200"
  let ?r = "\<lparr>api = ''OpenWeatherMap'', city = cty, data = JObj [(''current'', j)],
             quality_score = None\<rparr>"
  from partial have f: "fst (fetch_owm_data cfg nt cty s) = Inr (Some ?r)"
    unfolding owm by (simp split: option.splits)
  have a: "fst (assess_and_log_quality ?r m)
             = Inr (?r\<lparr>quality_score := Some (current_only_score j)\<rparr>)"
    by (simp add: assess_current_only)
  from f a show "let r = ?r
           in fst (fetch_owm_data cfg nt cty s) = Inr (Some r)
              \<and> fst (assess_and_log_quality r m)
                  = Inr (r\<lparr>quality_score := Some (current_only_score j)\<rparr>)"
    unfolding Let_def by blast
qed

theorem partial_fetch_success_witness:
  "legal_sleep (RESPECTFUL_DELAY_SECONDS example_config)
   \<and> fst (fetch_owm_data example_config first_call_only ''Oslo'' (init_agent ''20240101_120000''))
       = Inr (Some \<lparr>api = ''OpenWeatherMap'', city = ''Oslo'',
                    data = JObj [(''current'', oslo_current)], quality_score = None\<rparr>)
   \<and> fst (fetch_wapi_data example_config first_call_only ''Oslo''
            (emit (Get ''x'') (init_agent ''20240101_120000''))) = Inr None
   \<and> fst (assess_and_log_quality
            \<lparr>api = ''OpenWeatherMap'', city = ''Oslo'',
             data = JObj [(''current'', oslo_current)], quality_score = None\<rparr>
            (summary_metrics (init_agent ''20240101_120000'')))
       = Inr \<lparr>api = ''OpenWeatherMap'', city = ''Oslo'',
              data = JObj [(''current'', oslo_current)], quality_score = Some 80\<rparr>"
proof -
  let ?u1 = "''http://api.openweathermap.org/data/2.5/weather?q=Oslo&units=metric&appid=k1''"
  let ?u2 = "''http://api.openweathermap.org/data/2.5/forecast?q=Oslo&units=metric&appid=k1''"
  let ?s = "init_agent ''20240101_120000''"
  have d: "legal_sleep (RESPECTFUL_DELAY_SECONDS example_config)"
    by (simp add: legal_sleep_def sleep_error_def example_config_def)
  have sec: "seconds (RESPECTFUL_DELAY_SECONDS example_config) = 1"
    by (simp add: example_config_def)
  have u: "owm_urls example_config ''Oslo'' = [(''current'', ?u1), (''forecast'', ?u2)]"
    by (simp add: owm_urls_def example_config_def)
  have o1: "first_call_only (trace ?s) ?u1 = HttpResponse 200 (Some oslo_current)"
    by (simp add: first_call_only_def init_agent_def)
  have o2: "first_call_only
              (trace ?s @ [Get ?u1, Sleep (seconds (RESPECTFUL_DELAY_SECONDS example_config))]) ?u2
              = HttpResponse 500 None"
    by (simp add: first_call_only_def)
  have w: "first_call_only (trace ?s) (wapi_url example_config ''Oslo'')
              = HttpResponse 200 (Some oslo_current)"
    by (simp add: first_call_only_def init_agent_def)
  have w': "first_call_only (trace (emit (Get ''x'') ?s)) (wapi_url example_config ''Oslo'')
              = HttpResponse 500 None"
    by (simp add: first_call_only_def)
  have o1': "first_call_only (trace (emit (Get ''x'') ?s)) ?u1 = HttpResponse 500 None"
    by (simp add: first_call_only_def)
  have o2': "first_call_only (trace (emit (Get ''x'') ?s)
               @ [Get ?u1, Sleep (seconds (RESPECTFUL_DELAY_SECONDS example_config))]) ?u2
              = HttpResponse 500 None"
    by (simp add: first_call_only_def)
  have sc: "current_only_score oslo_current = 80"
    by (simp add: current_only_score_def current_paths_def oslo_current_def)
  from partial_fetch_success[OF d u o1 o2 w, of oslo_current 500 None "summary_metrics ?s"]
       partial_fetch_success[OF d u o1' o2' w', of oslo_current 500 None "summary_metrics ?s"]
       sc d
  show ?thesis by (simp add: Let_def)
qed

section \<open>Properties of the retry loop\<close>

lemma owm_endpoints_frame: "frame s (snd (owm_endpoints cfg nt eps acc s))"
proof (induction eps arbitrary: acc s)
  case Nil
  show ?case by simp
next
  case (Cons ep eps)
  obtain name url where ep: "ep = (name, url)" by (cases ep)
  obtain dat ok where acc: "acc = (dat, ok)" by (cases acc)
  let ?s2 = "emit (Get url) (bump total_requests_update s)"
  have f2: "frame s ?s2"
    by (rule frame_trans[of _ "bump total_requests_update s"]) simp_all
  have f3: "frame s (bump owm_success_update ?s2)"
    by (rule frame_trans[OF f2]) simp
  have step: "\<And>s3 acc'. frame s s3 \<Longrightarrow>
      frame s (snd (case time_sleep Sleep (RESPECTFUL_DELAY_SECONDS cfg) s3 of
                      (Inl e, s4) \<Rightarrow> (Inl e, s4)
                    | (Inr u, s4) \<Rightarrow> owm_endpoints cfg nt eps acc' s4))"
  proof -
    fix s3 acc'
    assume f: "frame s s3"
    show "frame s (snd (case time_sleep Sleep (RESPECTFUL_DELAY_SECONDS cfg) s3 of
                      (Inl e, s4) \<Rightarrow> (Inl e, s4)
                    | (Inr u, s4) \<Rightarrow> owm_endpoints cfg nt eps acc' s4))"
    proof (cases "legal_sleep (RESPECTFUL_DELAY_SECONDS cfg)")
      case False
      from illegal_sleep_step[OF this, of Sleep s3] f show ?thesis by auto
    next
      case True
      have "frame s (emit (Sleep (seconds (RESPECTFUL_DELAY_SECONDS cfg))) s3)"
        by (rule frame_trans[OF f]) simp
      from frame_trans[OF this Cons.IH] True show ?thesis by simp
    qed
  qed
  show ?case
    unfolding ep acc
    by (cases "nt (trace s) url")
       (auto simp: requests_get_def Let_def f2 f3 intro!: step split: option.splits)
qed

lemma fetch_owm_data_frame: "frame s (snd (fetch_owm_data cfg nt cty s))"
  using owm_endpoints_frame[of s cfg nt "owm_urls cfg cty" "([], False)"]
  by (auto simp: fetch_owm_data_def split: prod.splits sum.splits)

lemma fetch_wapi_data_frame: "frame s (snd (fetch_wapi_data cfg nt cty s))"
proof -
  let ?s2 = "emit (Get (wapi_url cfg cty)) (bump total_requests_update s)"
  have f2: "frame s ?s2"
    by (rule frame_trans[of _ "bump total_requests_update s"]) simp_all
  have f3: "frame s (bump wapi_success_update ?s2)"
    by (rule frame_trans[OF f2]) simp
  show ?thesis
    by (simp add: fetch_wapi_data_def requests_get_def Let_def f2 f3
             split: http_outcome.splits option.splits)
qed

lemma fetch_owm_data_city:
  "fetch_owm_data cfg nt cty s = (Inr (Some d), s') \<Longrightarrow> city d = cty"
  by (auto simp: fetch_owm_data_def split: prod.splits sum.splits if_splits)

lemma fetch_wapi_data_city:
  "fetch_wapi_data cfg nt cty s = (Inr (Some d), s') \<Longrightarrow> city d = cty"
  by (auto simp: fetch_wapi_data_def requests_get_def Let_def
           split: http_outcome.splits option.splits if_splits)

text \<open>The loop over the sources: a payload is for the city asked for, and is counted once.\<close>

lemma try_apis_effect:
  "try_apis cfg nt cty apis s = (res, s') \<Longrightarrow>
     kept s s'
     \<and> successful_requests (summary_metrics s') = successful_requests (summary_metrics s) + gain res
     \<and> (\<exists>new. trace s' = trace s @ new \<and> filter is_retry_event new = [])
     \<and> (\<forall>d. res = Inr (Some d) \<longrightarrow> city d = cty)"
proof (induction apis arbitrary: s)
  case Nil
  then show ?case by auto
next
  case (Cons api_name rest)
  let ?f = "if api_name = ''OpenWeatherMap'' then fetch_owm_data cfg nt cty s
            else if api_name = ''WeatherAPI'' then fetch_wapi_data cfg nt cty s
            else (Inr None, s)"
  obtain r1 s1 where f: "?f = (r1, s1)" by (cases ?f)
  have fr: "frame s s1"
    using f fetch_owm_data_frame[of s cfg nt cty] fetch_wapi_data_frame[of s cfg nt cty]
    by (auto split: if_splits)
  have cty: "\<And>d. r1 = Inr (Some d) \<Longrightarrow> city d = cty"
    using f by (auto split: if_splits dest: fetch_owm_data_city fetch_wapi_data_city)
  from fr obtain n1 where n1: "trace s1 = trace s @ n1" "filter is_retry_event n1 = []"
    by (auto simp: frame_def)
  from fr have k1: "kept s s1"
    and c1: "successful_requests (summary_metrics s1) = successful_requests (summary_metrics s)"
    by (simp_all add: frame_def)
  show ?case
  proof (cases r1)
    case (Inl e)
    with Cons.prems f have "res = Inl e" "s' = s1" by simp_all
    with k1 c1 n1 show ?thesis by auto
  next
    case (Inr opt)
    show ?thesis
    proof (cases opt)
      case (Some d)
      with Inr Cons.prems f have r: "res = Inr (Some d)" "s' = bump successful_requests_update s1"
        by simp_all
      from k1 have "kept s (bump successful_requests_update s1)"
        by (rule kept_trans) simp
      with r c1 n1 cty[of d] Inr Some show ?thesis by auto
    next
      case None
      with Inr Cons.prems f have "try_apis cfg nt cty rest s1 = (res, s')" by simp
      from Cons.IH[OF this] obtain n2 where
        k2: "kept s1 s'"
        and c2: "successful_requests (summary_metrics s')
                   = successful_requests (summary_metrics s1) + gain res"
        and n2: "trace s' = trace s1 @ n2" "filter is_retry_event n2 = []"
        and d2: "\<forall>d. res = Inr (Some d) \<longrightarrow> city d = cty"
        by auto
      from n1 n2 have "trace s' = trace s @ (n1 @ n2) \<and> filter is_retry_event (n1 @ n2) = []"
        by simp
      then have "\<exists>new. trace s' = trace s @ new \<and> filter is_retry_event new = []" by blast
      with kept_trans[OF k1 k2] c1 c2 d2 show ?thesis by simp
    qed
  qed
qed

lemma kept_emit [simp]: "kept s (emit ev s)"
  by (simp add: kept_def emit_def)

lemma successful_emit [simp]:
  "successful_requests (summary_metrics (emit ev s)) = successful_requests (summary_metrics s)"
  by (simp add: emit_def)

text \<open>The pause between two attempts: it raises and leaves the agent as it is, or it sleeps
  the base delay times \<open>2 ^ attempt\<close>.\<close>

lemma backoff_seconds: "backoff_delay d a = Inr d' \<Longrightarrow> seconds d' = seconds d * 2 ^ a"
  by (cases d) (auto split: if_splits)

lemma backoff_pause:
  "(\<exists>e. (case backoff_delay d a of Inl e \<Rightarrow> (Inl e, s) | Inr delay \<Rightarrow> time_sleep Backoff delay s)
          = (Inl e, s))
   \<or> (case backoff_delay d a of Inl e \<Rightarrow> (Inl e, s) | Inr delay \<Rightarrow> time_sleep Backoff delay s)
       = (Inr (), emit (Backoff (seconds d * 2 ^ a)) s)"
proof (cases "backoff_delay d a")
  case (Inl e)
  then show ?thesis by simp
next
  case (Inr d')
  show ?thesis
  proof (cases "legal_sleep d'")
    case True
    with Inr backoff_seconds[OF Inr] show ?thesis by simp
  next
    case False
    from illegal_sleep_step[OF this, of Backoff s] Inr show ?thesis by auto
  qed
qed

text \<open>The retry loop from attempt \<open>a\<close> on.\<close>

lemma retry_loop_effect:
  "retry_loop cfg nt cty [a..<nat (MAX_RETRIES cfg)] s = (res, s') \<Longrightarrow>
     kept s s'
     \<and> successful_requests (summary_metrics s') = successful_requests (summary_metrics s) + gain res
     \<and> (\<forall>d. res = Inr (Some d) \<longrightarrow> city d = cty)
     \<and> (\<exists>n new. trace s' = trace s @ new \<and> n \<le> nat (MAX_RETRIES cfg) - a
            \<and> (a < nat (MAX_RETRIES cfg) \<longrightarrow> 0 < n)
            \<and> (res = Inr None \<longrightarrow> n = nat (MAX_RETRIES cfg) - a)
            \<and> filter is_retry_event new = schedule_from cfg cty a n)"
proof (induction "nat (MAX_RETRIES cfg) - a" arbitrary: a s)
  case 0
  then have "[a..<nat (MAX_RETRIES cfg)] = []" by simp
  with "0.prems" have "res = Inr None" "s' = s" by simp_all
  with 0 show ?case by (auto intro!: exI[of _ 0])
next
  case (Suc k)
  let ?M = "nat (MAX_RETRIES cfg)"
  let ?s0 = "emit (LogAttempt a cty) s"
  from Suc.hyps(2) have lt: "a < ?M" by simp
  then have upt: "[a..<?M] = a # [Suc a..<?M]" by (simp add: upt_conv_Cons)
  obtain r1 s1 where t: "try_apis cfg nt cty (API_PRIORITY cfg) ?s0 = (r1, s1)"
    by (cases "try_apis cfg nt cty (API_PRIORITY cfg) ?s0")
  from try_apis_effect[OF t] obtain n1 where
    k1: "kept ?s0 s1"
    and c1: "successful_requests (summary_metrics s1)
               = successful_requests (summary_metrics s) + gain r1"
    and n1: "trace s1 = trace s @ LogAttempt a cty # n1" "filter is_retry_event n1 = []"
    and d1: "\<forall>d. r1 = Inr (Some d) \<longrightarrow> city d = cty"
    by auto
  have k01: "kept s s1" by (rule kept_trans[OF _ k1]) simp
  have one: "filter is_retry_event (LogAttempt a cty # n1) = schedule_from cfg cty a 1"
    using n1 by simp
  have stop: "res = r1 \<Longrightarrow> s' = s1 \<Longrightarrow> res \<noteq> Inr None \<or> ?M - a = 1 \<Longrightarrow> ?case"
    using k01 c1 n1 d1 one lt
    by (auto intro!: exI[of _ "1::nat"] exI[of _ "LogAttempt a cty # n1"])
  show ?case
  proof (cases r1)
    case (Inl e)
    with Suc.prems t upt have "res = r1" "s' = s1" by simp_all
    with Inl stop show ?thesis by simp
  next
    case (Inr opt)
    show ?thesis
    proof (cases opt)
      case (Some d)
      with Inr Suc.prems t upt have "res = r1" "s' = s1" by simp_all
      with Inr Some stop show ?thesis by simp
    next
      case None
      show ?thesis
      proof (cases "int a < MAX_RETRIES cfg - 1")
        case False
        with lt have last: "Suc a = ?M" by linarith
        with None Inr Suc.prems t upt False have rs: "res = r1" "s' = s1" by simp_all
        from last have "?M - a = 1" by linarith
        with rs stop show ?thesis by blast
      next
        case True
        then have more: "Suc a < ?M" by linarith
        let ?d = "seconds (RESPECTFUL_DELAY_SECONDS cfg) * 2 ^ a"
        let ?pause = "case backoff_delay (RESPECTFUL_DELAY_SECONDS cfg) a of
                        Inl e \<Rightarrow> (Inl e, s1)
                      | Inr delay \<Rightarrow> time_sleep Backoff delay s1"
        from backoff_pause[where d = "RESPECTFUL_DELAY_SECONDS cfg" and a = a and s = s1]
        show ?thesis
        proof
          assume "\<exists>e. ?pause = (Inl e, s1)"
          then obtain e where "?pause = (Inl e, s1)" by blast
          with None Inr Suc.prems t upt True have "res = Inl e" "s' = s1"
            by (auto split: sum.splits)
          with k01 c1 n1 one lt None Inr show ?thesis
            by (auto intro!: exI[of _ "1::nat"] exI[of _ "LogAttempt a cty # n1"])
        next
          let ?s2 = "emit (Backoff ?d) s1"
          assume "?pause = (Inr (), ?s2)"
          with None Inr Suc.prems t upt True
          have rec: "retry_loop cfg nt cty [Suc a..<?M] ?s2 = (res, s')"
            by (auto split: sum.splits)
          from Suc.hyps(2) have "k = ?M - Suc a" by simp
          from Suc.hyps(1)[OF this rec] more obtain n new where
            k2: "kept ?s2 s'"
            and c2: "successful_requests (summary_metrics s')
                       = successful_requests (summary_metrics ?s2) + gain res"
            and d2: "\<forall>d. res = Inr (Some d) \<longrightarrow> city d = cty"
            and tr: "trace s' = trace ?s2 @ new"
            and n: "n \<le> ?M - Suc a" "0 < n" "res = Inr None \<longrightarrow> n = ?M - Suc a"
            and sch: "filter is_retry_event new = schedule_from cfg cty (Suc a) n"
            by auto
          have k02: "kept s s'"
            by (rule kept_trans[OF k01]) (rule kept_trans[OF _ k2], simp)
          from c1 c2 None Inr
          have c: "successful_requests (summary_metrics s')
                     = successful_requests (summary_metrics s) + gain res" by simp
          let ?new = "LogAttempt a cty # n1 @ Backoff ?d # new"
          from n1 tr have t': "trace s' = trace s @ ?new" by simp
          from n1 sch n have f': "filter is_retry_event ?new = schedule_from cfg cty a (Suc n)"
            by simp
          from n more have n': "Suc n \<le> ?M - a" "res = Inr None \<longrightarrow> Suc n = ?M - a"
            by linarith+
          from t' f' n' have
            "trace s' = trace s @ ?new \<and> Suc n \<le> ?M - a \<and> (a < ?M \<longrightarrow> 0 < Suc n)
              \<and> (res = Inr None \<longrightarrow> Suc n = ?M - a)
              \<and> filter is_retry_event ?new = schedule_from cfg cty a (Suc n)"
            by blast
          then have "\<exists>n new. trace s' = trace s @ new \<and> n \<le> ?M - a \<and> (a < ?M \<longrightarrow> 0 < n)
              \<and> (res = Inr None \<longrightarrow> n = ?M - a)
              \<and> filter is_retry_event new = schedule_from cfg cty a n"
            by blast
          with k02 c d2 show ?thesis by blast
        qed
      qed
    qed
  qed
qed

text \<open>The loop raises where line 170 does: with a float delay, the power \<^verbatim>\<open>2 ** 1024\<close> of the
  backoff after attempt 1024 cannot be converted, whatever the delay is (here 0.0, with no
  source to ask).\<close>

lemma float_backoff_overflows:
  assumes "RESPECTFUL_DELAY_SECONDS cfg = PyFloat 0"
    and "API_PRIORITY cfg = []"
    and "MAX_RETRIES cfg = 1026"
    and "a \<le> 1024"
  shows "fst (retry_loop cfg nt cty [a..<nat (MAX_RETRIES cfg)] s) = Inl OverflowError"
  using assms(4)
proof (induction "1024 - a" arbitrary: a s)
  case 0
  then have a: "a = 1024" by simp
  have "[a..<nat (MAX_RETRIES cfg)] = a # [Suc a..<nat (MAX_RETRIES cfg)]"
    using assms(3) a by (simp add: upt_conv_Cons)
  with assms a show ?case by simp
next
  case (Suc k)
  then have a: "a < 1024" by simp
  have u: "[a..<1026] = a # [Suc a..<1026]"
    using a by (simp add: upt_conv_Cons)
  have l: "legal_sleep (PyFloat 0)"
    by (simp add: legal_sleep_def sleep_error_def fl_def)
  from Suc have "fst (retry_loop cfg nt cty [Suc a..<nat (MAX_RETRIES cfg)]
                        (emit (Backoff 0) (emit (LogAttempt a cty) s))) = Inl OverflowError"
    by simp
  with assms(1-3) a l show ?case by (simp add: u)
qed

lemma schedule_from_0: "schedule_from cfg cty 0 n = schedule cfg cty n"
proof -
  let ?f = "\<lambda>k. [Backoff (seconds (RESPECTFUL_DELAY_SECONDS cfg) * 2 ^ (k - 1)),
                 LogAttempt k cty]"
  have gen: "schedule_from cfg cty a (Suc n) = LogAttempt a cty # concat (map ?f [Suc a..<Suc a + n])"
    for a n
  proof (induction n arbitrary: a)
    case 0
    show ?case by simp
  next
    case (Suc n)
    have "[Suc a..<Suc a + Suc n] = Suc a # [Suc (Suc a)..<Suc (Suc a) + n]"
      by (simp add: upt_conv_Cons)
    with Suc.IH[of "Suc a"] show ?case by simp
  qed
  show ?thesis
  proof (cases n)
    case 0
    then show ?thesis by (simp add: schedule_def)
  next
    case (Suc m)
    have m1: "map (\<lambda>k. backoff_before cfg k @ [LogAttempt k cty]) [Suc 0..<Suc m]
                = map ?f [Suc 0..<Suc m]"
      by (rule map_cong) (auto simp: backoff_before_def)
    have u: "[0..<Suc m] = 0 # [Suc 0..<Suc m]"
      by (rule upt_conv_Cons) simp
    have "schedule cfg cty (Suc m) = LogAttempt 0 cty # concat (map ?f [Suc 0..<Suc m])"
      unfolding schedule_def u list.map concat.simps m1
      by (simp add: backoff_before_def del: upt_Suc)
    with gen[of 0 m] Suc show ?thesis by (simp del: upt_Suc)
  qed
qed

text \<open>
  Claim C3. For a location the retry loop makes at most \<^verbatim>\<open>MAX_RETRIES\<close> attempts, each a pass
  over the API priority list (and all of them when it ends without a payload). With the
  attempts numbered from 0, as the loop variable \<^verbatim>\<open>attempt\<close> and the state
  \<open>Trying(attempt, _)\<close> of the specification are, the only backoff sleeps are one before each
  attempt \<open>k > 0\<close>, of the base delay times \<open>2 ^ (k - 1)\<close>; none follows the last attempt.
\<close>

theorem retry_schedule:
  assumes "retry_loop cfg nt cty [0..<nat (MAX_RETRIES cfg)] s = (res, s')"
  shows "\<exists>n new. trace s' = trace s @ new
           \<and> n \<le> nat (MAX_RETRIES cfg)
           \<and> (res = Inr None \<longrightarrow> n = nat (MAX_RETRIES cfg))
           \<and> filter is_retry_event new = schedule cfg cty n"
proof -
  from retry_loop_effect[OF assms] obtain n new where
    "trace s' = trace s @ new" "n \<le> nat (MAX_RETRIES cfg) - 0"
    "res = Inr None \<longrightarrow> n = nat (MAX_RETRIES cfg) - 0"
    "filter is_retry_event new = schedule_from cfg cty 0 n"
    by blast
  then have "trace s' = trace s @ new \<and> n \<le> nat (MAX_RETRIES cfg)
           \<and> (res = Inr None \<longrightarrow> n = nat (MAX_RETRIES cfg))
           \<and> filter is_retry_event new = schedule cfg cty n"
    by (simp add: schedule_from_0)
  then show ?thesis by blast
qed

lemmas run_defs =
  fetch_owm_data_def fetch_wapi_data_def requests_get_def time_sleep_def sleep_error_def
  emit_def bump_def
  owm_urls_def wapi_url_def init_agent_def Let_def

theorem retry_schedule_witness:
  "fst (retry_loop wapi_only_config no_network ''Oslo'' [0..<nat (MAX_RETRIES wapi_only_config)]
          (init_agent ''20240101_120000'')) = Inr None
   \<and> filter is_retry_event
        (trace (snd (retry_loop wapi_only_config no_network ''Oslo''
                       [0..<nat (MAX_RETRIES wapi_only_config)] (init_agent ''20240101_120000''))))
       = [LogAttempt 0 ''Oslo'', Backoff 1, LogAttempt 1 ''Oslo'', Backoff 2, LogAttempt 2 ''Oslo'']"
proof -
  let ?run = "retry_loop wapi_only_config no_network ''Oslo''
                [0..<nat (MAX_RETRIES wapi_only_config)] (init_agent ''20240101_120000'')"
  have m: "nat (MAX_RETRIES wapi_only_config) = 3" by (simp add: wapi_only_config_def)
  have r: "fst ?run = Inr None"
    by (simp add: wapi_only_config_def no_network_def run_defs upt_rec)
  then have run: "?run = (Inr None, snd ?run)" by (simp add: prod_eq_iff)
  have s: "schedule wapi_only_config ''Oslo'' 3
             = [LogAttempt 0 ''Oslo'', Backoff 1, LogAttempt 1 ''Oslo'', Backoff 2,
                LogAttempt 2 ''Oslo'']"
    by (simp add: schedule_def backoff_before_def wapi_only_config_def upt_rec)
  from retry_schedule[OF run] obtain n new where
    "trace (snd ?run) = trace (init_agent ''20240101_120000'') @ new"
    "n = nat (MAX_RETRIES wapi_only_config)"
    "filter is_retry_event new = schedule wapi_only_config ''Oslo'' n"
    by blast
  with m s r show ?thesis by (simp add: init_agent_def)
qed

section \<open>Properties of the collection loop\<close>

lemma check_fields_metrics:
  "check_fields d fs (score, m) = Inr (score', m') \<Longrightarrow>
     failures m' = failures m \<and> successful_requests m' = successful_requests m
     \<and> issues m' = issues m"
proof (induction fs arbitrary: score m)
  case Nil
  then show ?case by simp
next
  case (Cons f fs)
  show ?case
  proof (cases "resolve d (split_dot f)")
    case (Inl e)
    with Cons.prems have "check_fields d fs (score - 5, m) = Inr (score', m')"
      by (simp split: if_splits)
    from Cons.IH[OF this] show ?thesis .
  next
    case (Inr v)
    with Cons.prems have
      "check_fields d fs (score, m\<lparr>data_points_collected := data_points_collected m + 1\<rparr>)
         = Inr (score', m')"
      by simp
    from Cons.IH[OF this] show ?thesis by simp
  qed
qed

lemma validity_check_metrics:
  "validity_check r (score, m) = (score', m') \<Longrightarrow>
     failures m' = failures m \<and> successful_requests m' = successful_requests m
     \<and> (\<exists>new. issues m' = issues m @ new \<and> filter is_hard_failure new = [])"
  by (auto simp: validity_check_def split: sum.splits prod.splits if_splits)

text \<open>The assessment keeps the city of the record and the two counters, and logs no hard
  failure.\<close>

lemma assess_effect:
  assumes "assess_and_log_quality r m = (Inr r', m')"
  shows "city r' = city r \<and> failures m' = failures m
         \<and> successful_requests m' = successful_requests m
         \<and> (\<exists>new. issues m' = issues m @ new \<and> filter is_hard_failure new = [])"
proof -
  from assms obtain score m1 where cs: "completeness_score r m = Inr (score, m1)"
    and r': "r' = r\<lparr>quality_score := Some (max 0 score)\<rparr>"
    and m': "m' = m1\<lparr>total_quality_score := total_quality_score m1 + max 0 score\<rparr>"
    by (auto simp: assess_result)
  from cs obtain b s0 m0 where
    cf: "check_fields (data r) (required_fields (api r)) (if b then 100 - 20 else 100, m)
           = Inr (s0, m0)"
    and vc: "validity_check r (s0, m0) = (score, m1)"
    by (auto simp: completeness_score_def bind_eq_Inr)
  from check_fields_metrics[OF cf] validity_check_metrics[OF vc] r' m'
  show ?thesis by simp
qed

lemma standardize_owm_city: "p_city (snd (standardize_owm d p)) = p_city p"
  by (simp add: standardize_owm_def Let_def split: sum.splits)

lemma standardize_wapi_city: "p_city (snd (standardize_wapi d p)) = p_city p"
  by (auto simp: standardize_wapi_def Let_def bind_eq_Inr split: sum.splits if_splits)

lemma process_raw_data_city: "process_raw_data ts r = Inr p \<Longrightarrow> p_city p = city r"
proof -
  have "p_city (snd (standardize r (blank_record ts r))) = city r"
    by (simp add: standardize_def standardize_owm_city standardize_wapi_city blank_record_def)
  moreover assume "process_raw_data ts r = Inr p"
  ultimately show ?thesis
    by (auto simp: process_raw_data_returns split: option.splits)
qed

text \<open>One location: either its record is appended to both collections and counted as a
  success, or a hard failure naming it is counted and logged.\<close>

lemma collect_city_effect:
  assumes "collect_city cfg nt cty s = (Inr (), s')"
  shows "(\<exists>r p new. raw_data s' = raw_data s @ [r] \<and> city r = cty
             \<and> processed_data s' = processed_data s @ [p] \<and> p_city p = cty
             \<and> failures (summary_metrics s') = failures (summary_metrics s)
             \<and> successful_requests (summary_metrics s')
                 = successful_requests (summary_metrics s) + 1
             \<and> issues (summary_metrics s') = issues (summary_metrics s) @ new
             \<and> filter is_hard_failure new = [])
       \<or> (raw_data s' = raw_data s \<and> processed_data s' = processed_data s
             \<and> failures (summary_metrics s') = failures (summary_metrics s) + 1
             \<and> successful_requests (summary_metrics s') = successful_requests (summary_metrics s)
             \<and> issues (summary_metrics s')
                 = issues (summary_metrics s) @ [HardFailure cty (MAX_RETRIES cfg)])"
proof -
  obtain res s1 where rl: "retry_loop cfg nt cty [0..<nat (MAX_RETRIES cfg)] s = (res, s1)"
    by (cases "retry_loop cfg nt cty [0..<nat (MAX_RETRIES cfg)] s")
  from retry_loop_effect[OF rl] have k: "kept s s1"
    and c: "successful_requests (summary_metrics s1)
              = successful_requests (summary_metrics s) + gain res"
    and d: "\<forall>d. res = Inr (Some d) \<longrightarrow> city d = cty"
    by simp_all
  show ?thesis
  proof (cases res)
    case (Inl e)
    with assms rl show ?thesis by (simp add: collect_city_def)
  next
    case (Inr opt)
    show ?thesis
    proof (cases opt)
      case None
      with Inr assms rl have
        "s' = summary_metrics_update
                (\<lambda>m. m\<lparr>failures := failures m + 1,
                        issues := issues m @ [HardFailure cty (MAX_RETRIES cfg)]\<rparr>) s1"
        by (simp add: collect_city_def)
      with k c Inr None show ?thesis by (simp add: kept_def)
    next
      case (Some r0)
      let ?s2 = "s1\<lparr>raw_data := raw_data s1 @ [r0]\<rparr>"
      obtain a m where a: "assess_and_log_quality r0 (summary_metrics ?s2) = (a, m)"
        by (cases "assess_and_log_quality r0 (summary_metrics ?s2)")
      show ?thesis
      proof (cases a)
        case (Inl e)
        with Some Inr assms rl a show ?thesis by (simp add: collect_city_def)
      next
        case r: (Inr r)
        let ?s3 = "?s2\<lparr>raw_data := raw_data s1 @ [r], summary_metrics := m\<rparr>"
        obtain p where p: "process_raw_data (collection_timestamp ?s3) r = Inr p"
          using process_raw_data_returns by blast
        with r Some Inr assms rl a
        have s': "s' = ?s3\<lparr>processed_data := processed_data ?s3 @ [p]\<rparr>"
          by (simp add: collect_city_def)
        from a r have "assess_and_log_quality r0 (summary_metrics s1) = (Inr r, m)" by simp
        from assess_effect[OF this] obtain new where
          e: "city r = city r0" "failures m = failures (summary_metrics s1)"
             "successful_requests m = successful_requests (summary_metrics s1)"
             "issues m = issues (summary_metrics s1) @ new" "filter is_hard_failure new = []"
          by blast
        from d Inr Some have "city r0 = cty" by simp
        with e process_raw_data_city[OF p] have "city r = cty" "p_city p = cty" by simp_all
        with s' e k c Inr Some show ?thesis by (simp add: kept_def)
      qed
    qed
  qed
qed

lemma collect_cities_effect:
  "collect_cities cfg nt cs s = (Inr (), s') \<Longrightarrow>
     \<exists>outcome rs ps new.
        length outcome = length cs
      \<and> raw_data s' = raw_data s @ rs \<and> map city rs = collected cs outcome
      \<and> processed_data s' = processed_data s @ ps \<and> map p_city ps = collected cs outcome
      \<and> issues (summary_metrics s') = issues (summary_metrics s) @ new
      \<and> filter is_hard_failure new
           = map (\<lambda>c. HardFailure c (MAX_RETRIES cfg)) (failed cs outcome)
      \<and> failures (summary_metrics s')
           = failures (summary_metrics s) + int (length (failed cs outcome))
      \<and> successful_requests (summary_metrics s')
           = successful_requests (summary_metrics s) + int (length (collected cs outcome))"
proof (induction cs arbitrary: s)
  case Nil
  then have "s' = s" by simp
  then show ?case
    by (intro exI[of _ "[]"]) (simp add: collected_def failed_def)
next
  case (Cons c cs)
  obtain u s1 where cc: "collect_city cfg nt c s = (u, s1)"
    by (cases "collect_city cfg nt c s")
  with Cons.prems have u: "u = Inr ()" and rest: "collect_cities cfg nt cs s1 = (Inr (), s')"
    by (auto split: sum.splits)
  from Cons.IH[OF rest] obtain outcome rs ps new where ih:
    "length outcome = length cs"
    "raw_data s' = raw_data s1 @ rs" "map city rs = collected cs outcome"
    "processed_data s' = processed_data s1 @ ps" "map p_city ps = collected cs outcome"
    "issues (summary_metrics s') = issues (summary_metrics s1) @ new"
    "filter is_hard_failure new = map (\<lambda>c. HardFailure c (MAX_RETRIES cfg)) (failed cs outcome)"
    "failures (summary_metrics s')
       = failures (summary_metrics s1) + int (length (failed cs outcome))"
    "successful_requests (summary_metrics s')
       = successful_requests (summary_metrics s1) + int (length (collected cs outcome))"
    by blast
  from cc u have "collect_city cfg nt c s = (Inr (), s1)" by simp
  from collect_city_effect[OF this] show ?case
  proof (elim disjE exE conjE)
    fix r p new1
    assume ok: "raw_data s1 = raw_data s @ [r]" "city r = c"
      "processed_data s1 = processed_data s @ [p]" "p_city p = c"
      "failures (summary_metrics s1) = failures (summary_metrics s)"
      "successful_requests (summary_metrics s1) = successful_requests (summary_metrics s) + 1"
      "issues (summary_metrics s1) = issues (summary_metrics s) @ new1"
      "filter is_hard_failure new1 = []"
    with ih show ?thesis
      by (intro exI[of _ "True # outcome"] exI[of _ "r # rs"] exI[of _ "p # ps"]
                exI[of _ "new1 @ new"])
         (simp add: collected_def failed_def)
  next
    assume ko: "raw_data s1 = raw_data s" "processed_data s1 = processed_data s"
      "failures (summary_metrics s1) = failures (summary_metrics s) + 1"
      "successful_requests (summary_metrics s1) = successful_requests (summary_metrics s)"
      "issues (summary_metrics s1)
         = issues (summary_metrics s) @ [HardFailure c (MAX_RETRIES cfg)]"
    with ih show ?thesis
      by (intro exI[of _ "False # outcome"] exI[of _ rs] exI[of _ ps]
                exI[of _ "HardFailure c (MAX_RETRIES cfg) # new"])
         (simp add: collected_def failed_def)
  qed
qed

text \<open>
  Claim C1. After \<^verbatim>\<open>collect_data\<close> completes, every configured location, in its turn, has
  exactly one of two outcomes: a raw record and a canonical processed record for it were
  appended and \<^verbatim>\<open>successful_requests\<close> went up by one, or \<^verbatim>\<open>failures\<close> went up by one
  and a hard-failure issue naming it was logged. \<open>outcome\<close> says which, location by location.
\<close>

theorem one_outcome_per_location:
  assumes "collect_data cfg nt s = (Inr (), s')"
  shows "\<exists>outcome rs ps new.
        length outcome = length (CITIES cfg)
      \<and> raw_data s' = raw_data s @ rs \<and> map city rs = collected (CITIES cfg) outcome
      \<and> processed_data s' = processed_data s @ ps
      \<and> map p_city ps = collected (CITIES cfg) outcome
      \<and> issues (summary_metrics s') = issues (summary_metrics s) @ new
      \<and> filter is_hard_failure new
           = map (\<lambda>c. HardFailure c (MAX_RETRIES cfg)) (failed (CITIES cfg) outcome)
      \<and> failures (summary_metrics s')
           = failures (summary_metrics s) + int (length (failed (CITIES cfg) outcome))
      \<and> successful_requests (summary_metrics s')
           = successful_requests (summary_metrics s)
               + int (length (collected (CITIES cfg) outcome))"
  using assms unfolding collect_data_def by (rule collect_cities_effect)

lemmas collect_defs =
  collect_data_def collect_city_def run_defs assess_defs process_defs

theorem one_outcome_per_location_witness:
  "fst (collect_data wapi_only_config oslo_only (init_agent ''20240101_120000'')) = Inr ()
   \<and> map city (raw_data (snd (collect_data wapi_only_config oslo_only
                                 (init_agent ''20240101_120000'')))) = [''Oslo'']
   \<and> issues (summary_metrics (snd (collect_data wapi_only_config oslo_only
                                      (init_agent ''20240101_120000''))))
       = [HardFailure ''Lima'' 3]
   \<and> (\<exists>outcome rs ps new.
        length outcome = length (CITIES wapi_only_config)
      \<and> raw_data (snd (collect_data wapi_only_config oslo_only (init_agent ''20240101_120000'')))
          = raw_data (init_agent ''20240101_120000'') @ rs
      \<and> map city rs = collected (CITIES wapi_only_config) outcome
      \<and> processed_data (snd (collect_data wapi_only_config oslo_only
                                (init_agent ''20240101_120000'')))
          = processed_data (init_agent ''20240101_120000'') @ ps
      \<and> map p_city ps = collected (CITIES wapi_only_config) outcome
      \<and> issues (summary_metrics (snd (collect_data wapi_only_config oslo_only
                                         (init_agent ''20240101_120000''))))
          = issues (summary_metrics (init_agent ''20240101_120000'')) @ new
      \<and> filter is_hard_failure new
           = map (\<lambda>c. HardFailure c (MAX_RETRIES wapi_only_config))
               (failed (CITIES wapi_only_config) outcome)
      \<and> failures (summary_metrics (snd (collect_data wapi_only_config oslo_only
                                           (init_agent ''20240101_120000''))))
           = failures (summary_metrics (init_agent ''20240101_120000''))
               + int (length (failed (CITIES wapi_only_config) outcome))
      \<and> successful_requests (summary_metrics (snd (collect_data wapi_only_config oslo_only
                                           (init_agent ''20240101_120000''))))
           = successful_requests (summary_metrics (init_agent ''20240101_120000''))
               + int (length (collected (CITIES wapi_only_config) outcome)))"
proof -
  let ?run = "collect_data wapi_only_config oslo_only (init_agent ''20240101_120000'')"
  have f: "fst ?run = Inr ()"
    by (simp add: collect_defs wapi_only_config_def oslo_only_def upt_rec)
  have r: "map city (raw_data (snd ?run)) = [''Oslo'']"
    by (simp add: collect_defs wapi_only_config_def oslo_only_def upt_rec)
  have i: "issues (summary_metrics (snd ?run)) = [HardFailure ''Lima'' 3]"
    by (simp add: collect_defs wapi_only_config_def oslo_only_def upt_rec)
  from f have "?run = (Inr (), snd ?run)" by (simp add: prod_eq_iff)
  from one_outcome_per_location[OF this] f r i show ?thesis by blast
qed

section \<open>The respectful delay\<close>

text \<open>The two-endpoint fetch sleeps after each of its calls; the one-endpoint fetch returns
  from inside its \<^verbatim>\<open>try\<close> and never sleeps.\<close>

lemma fetch_owm_data_trace:
  assumes "legal_sleep (RESPECTFUL_DELAY_SECONDS cfg)"
    and "owm_urls cfg cty = [(''current'', u1), (''forecast'', u2)]"
  shows "trace (snd (fetch_owm_data cfg nt cty s))
           = trace s @ [Get u1, Sleep (seconds (RESPECTFUL_DELAY_SECONDS cfg)),
                        Get u2, Sleep (seconds (RESPECTFUL_DELAY_SECONDS cfg))]"
  using assms
  by (cases "nt (trace s) u1";
      cases "nt (trace s @ [Get u1, Sleep (seconds (RESPECTFUL_DELAY_SECONDS cfg))]) u2")
     (auto simp: fetch_owm_data_def requests_get_def Let_def split: option.splits)

lemma fetch_wapi_data_trace:
  "trace (snd (fetch_wapi_data cfg nt cty s)) = trace s @ [Get (wapi_url cfg cty)]"
  by (simp add: fetch_wapi_data_def requests_get_def Let_def
           split: http_outcome.splits option.splits)

text \<open>
  Claim C4 fails on the code. With the one-endpoint source alone in the priority list and
  two cities answered at once, the two requests follow each other with no sleep between.
\<close>

theorem wapi_requests_without_pause:
  "trace (snd (collect_data wapi_only_config always_ok (init_agent ''20240101_120000'')))
     = [LogAttempt 0 ''Oslo'',
        Get ''http://api.weatherapi.com/v1/forecast.json?key=k2&q=Oslo&days=5'',
        LogAttempt 0 ''Lima'',
        Get ''http://api.weatherapi.com/v1/forecast.json?key=k2&q=Lima&days=5'']
   \<and> \<not> respectful (seconds (RESPECTFUL_DELAY_SECONDS wapi_only_config)) False
         (trace (snd (collect_data wapi_only_config always_ok (init_agent ''20240101_120000''))))"
proof -
  let ?run = "collect_data wapi_only_config always_ok (init_agent ''20240101_120000'')"
  have t: "trace (snd ?run)
     = [LogAttempt 0 ''Oslo'',
        Get ''http://api.weatherapi.com/v1/forecast.json?key=k2&q=Oslo&days=5'',
        LogAttempt 0 ''Lima'',
        Get ''http://api.weatherapi.com/v1/forecast.json?key=k2&q=Lima&days=5'']"
    by (simp add: collect_defs wapi_only_config_def always_ok_def oslo_current_def upt_rec)
  show ?thesis unfolding t by simp
qed

section \<open>Properties of the workflow\<close>

text \<open>
  Claim C7, as amended. When an exception leaves \<^verbatim>\<open>collect_data\<close>, \<^verbatim>\<open>run_agent\<close> catches it,
  logs it as critical, appends it to the issues, and then generates the quality report and
  attempts the collection summary from the metrics and collections as they are at that
  point. Nothing else is handed off on this path: neither the data nor the metadata.
  (The summary divides by \<^verbatim>\<open>total_requests\<close>; when that is 0 it raises out of the handler.)
\<close>

theorem crash_is_reported:
  assumes "collect_data cfg nt s = (Inl e, s1)"
  shows "let m2 = (summary_metrics s1)\<lparr>issues := issues (summary_metrics s1) @ [AgentCrash e]\<rparr>;
             s' = snd (run_agent cfg nt s)
         in trace s' = trace s1 @ [LogCritical e, QualityReport m2 (raw_data s1)]
                         @ (if total_requests m2 = 0 then [] else [CollectionSummary m2])
          \<and> summary_metrics s' = m2
          \<and> raw_data s' = raw_data s1 \<and> processed_data s' = processed_data s1
          \<and> fst (run_agent cfg nt s)
              = (if total_requests m2 = 0 then Inl ZeroDivisionError else Inr ())"
  using assms
  by (simp add: run_agent_def workflow_def crash_handler_def generate_collection_summary_def
        generate_quality_report_def emit_def Let_def)

theorem crash_is_reported_witness:
  "fst (collect_data wapi_only_config odd_forecast (init_agent ''20240101_120000''))
     = Inl AttributeError
   \<and> fst (run_agent wapi_only_config odd_forecast (init_agent ''20240101_120000'')) = Inr ()
   \<and> issues (summary_metrics
        (snd (run_agent wapi_only_config odd_forecast (init_agent ''20240101_120000''))))
       = [AgentCrash AttributeError]
   \<and> map city (raw_data
        (snd (run_agent wapi_only_config odd_forecast (init_agent ''20240101_120000''))))
       = [''Oslo'']"
proof -
  let ?s0 = "init_agent ''20240101_120000''"
  let ?c = "collect_data wapi_only_config odd_forecast ?s0"
  have f: "fst ?c = Inl AttributeError"
    by (simp add: collect_defs wapi_only_config_def odd_forecast_def upt_rec)
  have m: "summary_metrics (snd ?c)
             = \<lparr>total_requests = 1, successful_requests = 1, failures = 0,
                data_points_collected = 0, owm_success = 0, wapi_success = 1,
                total_quality_score = 0, issues = []\<rparr>"
    by (simp add: collect_defs wapi_only_config_def odd_forecast_def upt_rec)
  have r: "map city (raw_data (snd ?c)) = [''Oslo'']"
    by (simp add: collect_defs wapi_only_config_def odd_forecast_def upt_rec)
  from f have "?c = (Inl AttributeError, snd ?c)" by (simp add: prod_eq_iff)
  from crash_is_reported[OF this] f m r show ?thesis by (simp add: Let_def)
qed

text \<open>The claim as the specification words it fails: on that run the metadata is not
  generated.\<close>

theorem crash_skips_metadata_counterexample:
  "fst (collect_data wapi_only_config odd_forecast (init_agent ''20240101_120000''))
     = Inl AttributeError
   \<and> artifacts (trace (snd (run_agent wapi_only_config odd_forecast
                              (init_agent ''20240101_120000''))))
       = [''quality_report'', ''collection_summary'']"
  by (simp add: run_agent_def workflow_def crash_handler_def generate_collection_summary_def
        generate_quality_report_def artifacts_def collect_defs wapi_only_config_def
        odd_forecast_def upt_rec)

end
